theory Spec2Isabelle
  imports Complex_Main
begin

section \<open>Dates and durations\<close>

text \<open>
  A Python \<^verbatim>\<open>datetime\<close> (naive, as every date of the seeding pipeline is) is
  modelled by the number of microseconds since the start of day 0 of the proleptic
  Gregorian calendar, a \<^verbatim>\<open>timedelta\<close> by a number of microseconds.
  Comparison, addition and subtraction are those of the integers. The dates of the
  pipeline lie between 2022 and 2025, far from the ends of the Python type (years 1
  to 9999), and are handled as plain integers; where a function is examined on
  arbitrary datetimes, the range of the type, its overflow and the time zone are part
  of the model (\<open>py_datetime\<close> below).
\<close>

type_synonym datetime = int
type_synonym timedelta = int

definition td_seconds :: "int \<Rightarrow> timedelta" where
  "td_seconds n = n * 1000000"

definition td_minutes :: "int \<Rightarrow> timedelta" where
  "td_minutes n = td_seconds (n * 60)"

definition td_hours :: "int \<Rightarrow> timedelta" where
  "td_hours n = td_seconds (n * 3600)"

definition td_days :: "int \<Rightarrow> timedelta" where
  "td_days n = td_seconds (n * 86400)"

definition is_leap :: "int \<Rightarrow> bool" where
  "is_leap y = (y mod 4 = 0 \<and> (y mod 100 \<noteq> 0 \<or> y mod 400 = 0))"

definition days_before_year :: "int \<Rightarrow> int" where
  "days_before_year year =
     (let y = year - 1 in y * 365 + y div 4 - y div 100 + y div 400)"

definition days_before_month :: "int \<Rightarrow> int \<Rightarrow> int" where
  "days_before_month year month =
     [0, 31, 59, 90, 120, 151, 181, 212, 243, 273, 304, 334] ! nat (month - 1)
       + (if month > 2 \<and> is_leap year then 1 else 0)"

text \<open>\<^verbatim>\<open>datetime(year, month, day, hour, minute, second)\<close> for a valid calendar date.\<close>

definition mk_datetime :: "int \<Rightarrow> int \<Rightarrow> int \<Rightarrow> int \<Rightarrow> int \<Rightarrow> int \<Rightarrow> datetime" where
  "mk_datetime y m d hh mm ss =
     td_days (days_before_year y + days_before_month y m + d)
       + td_hours hh + td_minutes mm + td_seconds ss"

text \<open>The constants of \<^verbatim>\<open>utils_datetime.py\<close>.\<close>

definition SIMULATION_START_DATE :: datetime where
  "SIMULATION_START_DATE = mk_datetime 2022 1 15 0 0 0"

definition SIMULATION_END_DATE :: datetime where
  "SIMULATION_END_DATE = mk_datetime 2025 4 30 23 59 59"

definition PRODUCTOS_START_DATE_LIMIT :: datetime where
  "PRODUCTOS_START_DATE_LIMIT = mk_datetime 2022 1 15 0 0 0"

definition PRODUCTOS_END_DATE_LIMIT :: datetime where
  "PRODUCTOS_END_DATE_LIMIT = mk_datetime 2025 4 15 23 59 59"

section \<open>Random draws\<close>

text \<open>
  The pipeline draws from Python's \<^verbatim>\<open>random\<close> module. Each draw is an input of
  the model: a natural number of entropy for \<^verbatim>\<open>randint\<close> and \<^verbatim>\<open>choice\<close>, a
  rational for \<^verbatim>\<open>random()\<close> and \<^verbatim>\<open>uniform\<close>. Every value the library can return
  is the image of some input, and every input gives a value the library can return, so
  a statement for all inputs is a statement for all outcomes of the draw.
  \<^verbatim>\<open>randint(a, b)\<close> raises \<^verbatim>\<open>ValueError\<close> when \<open>b < a\<close>; every call below
  has \<open>a \<le> b\<close>, by constants or by a test made before the call.
\<close>

definition randint :: "nat \<Rightarrow> int \<Rightarrow> int \<Rightarrow> int" where
  "randint rnd a b = a + int rnd mod (b - a + 1)"

text \<open>\<^verbatim>\<open>random.random()\<close>, a number in \<open>[0, 1)\<close>: the fractional part of the input.\<close>

definition random_random :: "rat \<Rightarrow> rat" where
  "random_random u = u - of_int \<lfloor>u\<rfloor>"

text \<open>\<^verbatim>\<open>random.uniform(a, b)\<close> is \<^verbatim>\<open>a + (b - a) * random()\<close>.\<close>

definition random_uniform :: "rat \<Rightarrow> rat \<Rightarrow> rat \<Rightarrow> rat" where
  "random_uniform u a b = a + (b - a) * random_random u"

text \<open>\<^verbatim>\<open>random.choice(seq)\<close> on a non-empty sequence.\<close>

definition random_choice :: "nat \<Rightarrow> 'a list \<Rightarrow> 'a" where
  "random_choice rnd xs = xs ! (rnd mod length xs)"

section \<open>Double-precision numbers\<close>

text \<open>
  A Python \<^verbatim>\<open>float\<close> is an IEEE 754 binary64 number. A finite one is modelled by
  the rational number it denotes, and an arithmetic operation on floats by the exact
  operation followed by \<open>fl\<close>, the rounding of a rational to the nearest double, ties
  to the even mantissa: 53 bits of mantissa from \<open>2 powi (- 1022)\<close> upwards, multiples
  of \<open>2 powi (- 1074)\<close> below. Infinities are not values of the model: the one conversion below that can
  leave the range of the doubles, that of an integer, raises as in Python.
\<close>

text \<open>Rounding to the nearest integer, ties to even.\<close>

definition round_half_even :: "rat \<Rightarrow> int" where
  "round_half_even x =
     (let f = \<lfloor>x\<rfloor>; d = x - of_int f
      in if d < 1 / 2 then f else if d > 1 / 2 then f + 1 else if even f then f else f + 1)"

text \<open>\<^verbatim>\<open>int.bit_length()\<close> of a positive integer.\<close>

function bit_length :: "int \<Rightarrow> nat" where
  "bit_length a = (if a \<le> 0 then 0 else Suc (bit_length (a div 2)))"
  by pat_completeness auto
termination
  by (relation "measure nat") auto

declare bit_length.simps [simp del]

text \<open>The binary exponent of a positive rational: \<open>2 powi e \<le> x < 2 powi (e + 1)\<close>.\<close>

definition exponente :: "rat \<Rightarrow> int" where
  "exponente x =
     (case quotient_of x of
        (a, b) \<Rightarrow>
          (let k = int (bit_length a) - int (bit_length b)
           in if 2 powi k \<le> x then k else k - 1))"

text \<open>The exponent of the last mantissa bit of the doubles around \<open>x\<close>.\<close>

definition ulp_exponent :: "rat \<Rightarrow> int" where
  "ulp_exponent x = max (exponente x - 52) (- 1074)"

definition fl_pos :: "rat \<Rightarrow> rat" where
  "fl_pos x =
     (let q = 2 powi ulp_exponent x
      in of_int (round_half_even (x / q)) * q)"

definition fl :: "rat \<Rightarrow> rat" where
  "fl x = (if x = 0 then 0 else if x < 0 then - fl_pos (- x) else fl_pos x)"

text \<open>\<^verbatim>\<open>int(x)\<close> on a number: truncation towards zero.\<close>

definition py_int :: "rat \<Rightarrow> int" where
  "py_int x = (if 0 \<le> x then \<lfloor>x\<rfloor> else \<lceil>x\<rceil>)"

text \<open>The exceptions that the functions below can raise.\<close>

datatype py_error = TypeError | ValueError | OverflowError


text \<open>
  \<^verbatim>\<open>timedelta.total_seconds()\<close> divides the whole number of microseconds by
  1000000, a true division of integers, correctly rounded.
\<close>

definition total_seconds :: "timedelta \<Rightarrow> rat" where
  "total_seconds td = fl (of_int td / 1000000)"

text \<open>
  \<^verbatim>\<open>timedelta(seconds=s)\<close> for a float \<open>s\<close>: the whole seconds are converted
  exactly, the fractional part is multiplied by 1000000 in double precision, and the
  sum is rounded to a whole number of microseconds, ties to even.
\<close>

definition timedelta_of_seconds :: "rat \<Rightarrow> timedelta" where
  "timedelta_of_seconds s =
     (let intpart = py_int s;
          fracpart = s - of_int intpart;
          us = fl (1000000 * fracpart)
      in round_half_even (of_int (intpart * 1000000) + us))"

section \<open>Random dates (\<^verbatim>\<open>utils_datetime.py\<close>)\<close>

text \<open>
  The arguments of \<^verbatim>\<open>get_random_datetime_in_range\<close> are any two datetimes. A
  datetime is naive or aware; an aware one carries the offset of its time zone from
  UTC in microseconds (a fixed-offset \<^verbatim>\<open>timezone\<close>). The first component is the
  wall-clock time, which for every datetime lies between \<^verbatim>\<open>datetime.min\<close> and
  \<^verbatim>\<open>datetime.max\<close>.
\<close>

datatype py_datetime = Naive datetime | Aware datetime int

definition datetime_min :: datetime where
  "datetime_min = mk_datetime 1 1 1 0 0 0"

definition datetime_max :: datetime where
  "datetime_max = mk_datetime 9999 12 31 23 59 59 + 999999"

fun wall :: "py_datetime \<Rightarrow> datetime" where
  "wall (Naive w) = w"
| "wall (Aware w off) = w"

fun con_wall :: "py_datetime \<Rightarrow> datetime \<Rightarrow> py_datetime" where
  "con_wall (Naive w) w' = Naive w'"
| "con_wall (Aware w off) w' = Aware w' off"


text \<open>
  \<^verbatim>\<open>a >= b\<close> and \<^verbatim>\<open>a - b\<close> on datetimes: two naive datetimes are compared and
  subtracted by their wall-clock times, two aware ones by their UTC times, and a naive
  one with an aware one raises \<^verbatim>\<open>TypeError\<close>.
\<close>

fun datetime_ge :: "py_datetime \<Rightarrow> py_datetime \<Rightarrow> py_error + bool" where
  "datetime_ge (Naive a) (Naive b) = Inr (a \<ge> b)"
| "datetime_ge (Aware a oa) (Aware b ob) = Inr (a - oa \<ge> b - ob)"
| "datetime_ge (Naive a) (Aware b ob) = Inl TypeError"
| "datetime_ge (Aware a oa) (Naive b) = Inl TypeError"

fun datetime_sub :: "py_datetime \<Rightarrow> py_datetime \<Rightarrow> py_error + timedelta" where
  "datetime_sub (Naive a) (Naive b) = Inr (a - b)"
| "datetime_sub (Aware a oa) (Aware b ob) = Inr ((a - oa) - (b - ob))"
| "datetime_sub (Naive a) (Aware b ob) = Inl TypeError"
| "datetime_sub (Aware a oa) (Naive b) = Inl TypeError"

text \<open>
  \<^verbatim>\<open>d + td\<close> adds to the wall-clock time, keeps the time zone, and raises
  \<^verbatim>\<open>OverflowError\<close> when the result leaves the range of the type.
\<close>

definition datetime_add :: "py_datetime \<Rightarrow> timedelta \<Rightarrow> py_error + py_datetime" where
  "datetime_add d td =
     (let w = wall d + td
      in if w < datetime_min \<or> datetime_max < w then Inl OverflowError
         else Inr (con_wall d w))"

text \<open>
  \<^verbatim>\<open>get_random_datetime_in_range\<close>. \<open>max_date\<close> defaults to \<^verbatim>\<open>None\<close>, for which
  the type test raises \<^verbatim>\<open>TypeError\<close>. The comparison and the first addition are
  outside the \<^verbatim>\<open>try\<close>: what they raise leaves the function. Inside it,
  \<^verbatim>\<open>int((max_date - min_date).total_seconds())\<close> goes through a float,
  \<^verbatim>\<open>randint\<close> raises \<^verbatim>\<open>ValueError\<close> on an empty range and the addition may
  overflow; the handler catches every exception and adds
  \<^verbatim>\<open>random.uniform(0, time_diff)\<close> seconds, which is
  \<^verbatim>\<open>0 + (time_diff - 0) * random()\<close>, the double product of \<open>time_diff\<close> and the draw;
  what this last addition raises leaves the function. \<open>rnd\<close> is the entropy of the
  \<^verbatim>\<open>randint\<close> made, \<open>u\<close> that of \<^verbatim>\<open>random()\<close>.
\<close>

definition get_random_datetime_in_range ::
  "nat \<Rightarrow> rat \<Rightarrow> py_datetime \<Rightarrow> py_datetime option \<Rightarrow> py_error + py_datetime" where
  "get_random_datetime_in_range rnd u min_date max_date_arg =
     (case max_date_arg of
        None \<Rightarrow> Inl TypeError
      | Some max_date \<Rightarrow>
          (case datetime_ge min_date max_date of
             Inl e \<Rightarrow> Inl e
           | Inr True \<Rightarrow>
               (let random_seconds = randint rnd 1 300
                in datetime_add min_date (td_seconds random_seconds))
           | Inr False \<Rightarrow>
               (case datetime_sub max_date min_date of
                  Inl e \<Rightarrow> Inl e
                | Inr diferencia \<Rightarrow>
                    (let time_diff_seconds = py_int (total_seconds diferencia)
                     in case (if time_diff_seconds < 0 then Inl ValueError
                              else datetime_add min_date
                                     (td_seconds (randint rnd 0 time_diff_seconds))) of
                          Inr r \<Rightarrow> Inr r
                        | Inl e \<Rightarrow>
                            (let time_diff = total_seconds diferencia;
                                 random_seconds = fl (time_diff * random_random u)
                             in datetime_add min_date
                                  (timedelta_of_seconds random_seconds))))))"

text \<open>
  The pipeline calls the function on naive dates of the simulation, between 2022 and
  2025. There the additions stay in range and the whole number of seconds of the
  difference is exact, so that the call returns the following date (lemma
  \<open>get_random_datetime_in_range_naive\<close> below); the callers are modelled with it.
\<close>

definition random_datetime_in_range :: "nat \<Rightarrow> datetime \<Rightarrow> datetime \<Rightarrow> datetime" where
  "random_datetime_in_range rnd min_date max_date =
     (if min_date \<ge> max_date then
        (let random_seconds = randint rnd 1 300 in min_date + td_seconds random_seconds)
      else
        (let time_diff_seconds = (max_date - min_date) div 1000000 in
         if 0 \<le> time_diff_seconds then
           (let random_seconds = randint rnd 0 time_diff_seconds
            in min_date + td_seconds random_seconds)
         else min_date + int rnd mod (max_date - min_date + 1)))"

text \<open>
  \<^verbatim>\<open>get_random_datetime\<close>; \<^verbatim>\<open>None\<close> for an argument left out. Timestamps are whole
  seconds, taken in UTC.
\<close>

definition get_random_datetime ::
  "nat \<Rightarrow> datetime \<Rightarrow> datetime option \<Rightarrow> datetime option \<Rightarrow> int \<Rightarrow> int \<Rightarrow> datetime" where
  "get_random_datetime rnd min_date max_date_arg base_date_for_delta
       min_delta_seconds max_delta_seconds =
     (let max_date = (case max_date_arg of None \<Rightarrow> SIMULATION_END_DATE | Some m \<Rightarrow> m) in
      if min_date > max_date \<and> base_date_for_delta = None then
        (let random_seconds_increment =
               randint rnd 1 (if max_delta_seconds > 0 then max_delta_seconds else 300);
             candidate = min_date + td_seconds random_seconds_increment
         in min candidate SIMULATION_END_DATE)
      else
        (case base_date_for_delta of
           Some base \<Rightarrow>
             (let effective_base_date = max base min_date;
                  delta = td_seconds (randint rnd min_delta_seconds max_delta_seconds);
                  candidate_date = effective_base_date + delta
              in min (max candidate_date min_date) max_date)
         | None \<Rightarrow>
             (let min_ts = min_date div 1000000;
                  max_ts = max_date div 1000000
              in if min_ts > max_ts then min_date
                 else td_seconds (randint rnd min_ts max_ts))))"

text \<open>\<^verbatim>\<open>generate_subsequent_update_datetime\<close> with its default arguments.\<close>

definition generate_subsequent_update_datetime :: "nat \<Rightarrow> datetime \<Rightarrow> datetime" where
  "generate_subsequent_update_datetime rnd previous_update_datetime =
     (let min_delta_seconds = 60;
          max_delta_seconds = 3600 * 2;
          effective_max_date = SIMULATION_END_DATE;
          strict_min_date = previous_update_datetime + td_seconds 1
      in get_random_datetime rnd strict_min_date (Some effective_max_date)
           (Some previous_update_datetime)
           (if min_delta_seconds > 0 then min_delta_seconds else 1) max_delta_seconds)"

text \<open>
  \<^verbatim>\<open>generar_fecha_secuencial\<close>. The two dates are datetimes, so the type test passes.
  \<^verbatim>\<open>a > b\<close> on datetimes is as \<^verbatim>\<open>a >= b\<close> above. The range in seconds is a float;
  for one element the step is the integer 0 and so is its product with the index;
  otherwise the count less one and the index are converted to floats, and the division
  and the product are made in double precision. \<^verbatim>\<open>min(fecha_generada, fecha_fin_rango)\<close>
  is its second argument when that is less than the first, and its first otherwise.
\<close>

fun datetime_gt :: "py_datetime \<Rightarrow> py_datetime \<Rightarrow> py_error + bool" where
  "datetime_gt (Naive a) (Naive b) = Inr (a > b)"
| "datetime_gt (Aware a oa) (Aware b ob) = Inr (a - oa > b - ob)"
| "datetime_gt (Naive a) (Aware b ob) = Inl TypeError"
| "datetime_gt (Aware a oa) (Naive b) = Inl TypeError"



section \<open>Orders and their lifecycle transitions (\<^verbatim>\<open>detalle_pedido.py\<close>)\<close>

datatype EstadoPedidoEnum =
  Pendiente | Procesando | Enviado | Entregado | Cancelado | Reembolsado

record pedido =
  ped_id :: nat
  ped_usuario_id :: nat
  costo_total :: rat
  estado_pedido :: EstadoPedidoEnum
  ped_fecha_registro :: datetime
  ped_fecha_actualizacion :: datetime

text \<open>
  Each \<^verbatim>\<open>update_pedido_a_*\<close> mutates the order and returns a flag; the model returns
  the flag with the order after the call. \<^verbatim>\<open>commit_directo\<close> only selects
  between \<^verbatim>\<open>db.commit()\<close> and \<^verbatim>\<open>db.flush()\<close> and has no effect on the order.
\<close>

definition update_pedido_a_procesando :: "pedido \<Rightarrow> datetime \<Rightarrow> bool \<times> pedido" where
  "update_pedido_a_procesando p fecha_procesando =
     (if estado_pedido p = Pendiente
         \<and> ped_fecha_actualizacion p < fecha_procesando
         \<and> fecha_procesando \<le> SIMULATION_END_DATE
      then (True, p\<lparr>estado_pedido := Procesando, ped_fecha_actualizacion := fecha_procesando\<rparr>)
      else (False, p))"

definition update_pedido_a_enviado :: "pedido \<Rightarrow> datetime \<Rightarrow> bool \<times> pedido" where
  "update_pedido_a_enviado p fecha_envio =
     (if estado_pedido p = Procesando
         \<and> ped_fecha_actualizacion p < fecha_envio
         \<and> fecha_envio \<le> SIMULATION_END_DATE
      then (True, p\<lparr>estado_pedido := Enviado, ped_fecha_actualizacion := fecha_envio\<rparr>)
      else (False, p))"

definition update_pedido_a_entregado :: "pedido \<Rightarrow> datetime \<Rightarrow> bool \<times> pedido" where
  "update_pedido_a_entregado p fecha_entrega =
     (if estado_pedido p = Enviado
         \<and> ped_fecha_actualizacion p < fecha_entrega
         \<and> fecha_entrega \<le> SIMULATION_END_DATE
      then (True, p\<lparr>estado_pedido := Entregado, ped_fecha_actualizacion := fecha_entrega\<rparr>)
      else (False, p))"

definition update_pedido_a_reembolsado :: "pedido \<Rightarrow> datetime \<Rightarrow> bool \<times> pedido" where
  "update_pedido_a_reembolsado p fecha_reembolso =
     (if estado_pedido p \<in> set [Entregado, Cancelado]
         \<and> ped_fecha_actualizacion p < fecha_reembolso
         \<and> fecha_reembolso \<le> SIMULATION_END_DATE
      then (True, p\<lparr>estado_pedido := Reembolsado, ped_fecha_actualizacion := fecha_reembolso\<rparr>)
      else (False, p))"

section \<open>Products, inventory and order details (\<^verbatim>\<open>inventario.py\<close>)\<close>

datatype EstadoProductoEnum = Activo | Inactivo

record producto =
  prod_id :: nat
  proveedor_id :: nat
  prod_estado :: EstadoProductoEnum
  precio_venta :: rat
  prod_fecha_registro :: datetime
  prod_fecha_actualizacion :: datetime

record inventario =
  inv_producto_id :: nat
  cantidad_mano :: int
  cantidad_disponible :: int
  inv_fecha_registro :: datetime
  inv_fecha_actualizacion :: datetime

record detalle_pedido =
  det_pedido_id :: nat
  det_producto_id :: nat
  cantidad :: int
  precio_unitario :: rat
  subtotal :: rat
  det_fecha_registro :: datetime
  det_fecha_actualizacion :: datetime

text \<open>
  The part of the database session the inventory code reads and writes, together with
  the module-level dictionary \<^verbatim>\<open>ultimas_reposiciones\<close>. The table
  \<^verbatim>\<open>productos\<close> is the list of its rows (primary key \<^verbatim>\<open>id\<close>);
  \<^verbatim>\<open>inventario\<close> is the list of its rows (unique \<^verbatim>\<open>producto_id\<close>);
  \<^verbatim>\<open>detalle_pedido\<close> is the list of flushed rows.
  An ORM object is the row itself: mutating it is writing the row back.
\<close>

record db =
  productos :: "producto list"
  inventarios :: "inventario list"
  detalles :: "detalle_pedido list"
  ultimas_reposiciones :: "nat \<rightharpoonup> datetime"

text \<open>\<^verbatim>\<open>db.query(Producto).get(producto_id)\<close>\<close>

definition get_producto :: "db \<Rightarrow> nat \<Rightarrow> producto option" where
  "get_producto d i = find (\<lambda>p. prod_id p = i) (productos d)"

text \<open>Writing attributes of the product object with primary key \<open>i\<close>.\<close>

definition set_producto :: "db \<Rightarrow> nat \<Rightarrow> (producto \<Rightarrow> producto) \<Rightarrow> db" where
  "set_producto d i f = d\<lparr>productos := map (\<lambda>p. if prod_id p = i then f p else p) (productos d)\<rparr>"

text \<open>\<^verbatim>\<open>db.query(Inventario).filter(Inventario.producto_id == producto_id).first()\<close>\<close>

definition get_inventario :: "db \<Rightarrow> nat \<Rightarrow> inventario option" where
  "get_inventario d i = find (\<lambda>r. inv_producto_id r = i) (inventarios d)"

text \<open>Writing back the inventory object \<open>item\<close>, the row of its product.\<close>

definition set_inventario :: "db \<Rightarrow> inventario \<Rightarrow> db" where
  "set_inventario d item =
     d\<lparr>inventarios :=
          map (\<lambda>r. if inv_producto_id r = inv_producto_id item then item else r) (inventarios d)\<rparr>"

definition INV_PRODUCTOS_END_DATE_LIMIT :: datetime where
  "INV_PRODUCTOS_END_DATE_LIMIT = mk_datetime 2025 5 15 10 0 0"

definition MIN_SECONDS_AFTER_PREVIOUS_UPDATE :: int where
  "MIN_SECONDS_AFTER_PREVIOUS_UPDATE = 1"

definition UMBRAL_REPOSICION :: int where
  "UMBRAL_REPOSICION = 12"

definition PERIODO_MINIMO_REPOSICION :: int where
  "PERIODO_MINIMO_REPOSICION = 20"

definition determinar_cantidad_reposicion :: "rat \<Rightarrow> nat \<Rightarrow> int" where
  "determinar_cantidad_reposicion nivel_popularidad ranking_en_categoria =
     (if nivel_popularidad \<ge> 8 then
        (if ranking_en_categoria = 1 then 108
         else if ranking_en_categoria \<le> 4 then 96
         else 84)
      else if nivel_popularidad \<ge> 4 then
        (if ranking_en_categoria = 1 then 72
         else if ranking_en_categoria \<le> 3 then 64
         else 48)
      else
        (if ranking_en_categoria = 1 then 36
         else if ranking_en_categoria \<le> 3 then 24
         else 12))"

text \<open>
  The three \<^verbatim>\<open>for idx, (producto, popularidad) in enumerate(...)\<close> searches:
  the popularity and the 1-based rank of the first entry with the product's id.
\<close>

fun buscar_ranking :: "nat \<Rightarrow> nat \<Rightarrow> (nat \<times> rat) list \<Rightarrow> (rat \<times> nat) option" where
  "buscar_ranking producto_id idx [] = None"
| "buscar_ranking producto_id idx ((i, popularidad) # rest) =
     (if i = producto_id then Some (popularidad, idx + 1)
      else buscar_ranking producto_id (Suc idx) rest)"

text \<open>
  \<^verbatim>\<open>calcular_popularidad\<close> aggregates the order, comment and cart tables with SQL and
  float arithmetic; its result, a score of each product at the moment of the call, is
  the parameter \<open>pop\<close>. \<^verbatim>\<open>list.sort(key=..., reverse=True)\<close> is a stable sort by
  descending key, as \<open>sort_key\<close> on the negated key is.
\<close>

definition calcular_cantidad_reposicion :: "(nat \<Rightarrow> rat) \<Rightarrow> db \<Rightarrow> nat \<Rightarrow> int" where
  "calcular_cantidad_reposicion pop d producto_id =
     (let activos = filter (\<lambda>p. prod_estado p = Activo) (productos d);
          productos_con_popularidad = map (\<lambda>p. (prod_id p, pop (prod_id p))) activos;
          productos_populares =
            sort_key (\<lambda>x. - snd x) (filter (\<lambda>x. snd x \<ge> 8) productos_con_popularidad);
          productos_medios =
            sort_key (\<lambda>x. - snd x)
              (filter (\<lambda>x. \<not> snd x \<ge> 8 \<and> snd x \<ge> 4) productos_con_popularidad);
          productos_poco_populares =
            sort_key (\<lambda>x. - snd x)
              (filter (\<lambda>x. \<not> snd x \<ge> 8 \<and> \<not> snd x \<ge> 4) productos_con_popularidad)
      in case buscar_ranking producto_id 0 productos_populares of
           Some (nivel, ranking) \<Rightarrow> determinar_cantidad_reposicion nivel ranking
         | None \<Rightarrow>
        (case buscar_ranking producto_id 0 productos_medios of
           Some (nivel, ranking) \<Rightarrow> determinar_cantidad_reposicion nivel ranking
         | None \<Rightarrow>
        (case buscar_ranking producto_id 0 productos_poco_populares of
           Some (nivel, ranking) \<Rightarrow> determinar_cantidad_reposicion nivel ranking
         | None \<Rightarrow> 24)))"

text \<open>
  \<^verbatim>\<open>verificar_reposicion_inventario\<close>. \<open>dias_reposicion\<close> is the value drawn by
  \<^verbatim>\<open>random.randint(1, 5)\<close>. The result is the returned flag, the inventory object
  after the call and the session after the call.
\<close>

definition verificar_reposicion_inventario ::
  "(nat \<Rightarrow> rat) \<Rightarrow> int \<Rightarrow> db \<Rightarrow> inventario \<Rightarrow> datetime \<Rightarrow> bool \<times> inventario \<times> db" where
  "verificar_reposicion_inventario pop dias_reposicion d item fecha_operacion =
     (let producto_id = inv_producto_id item in
      if cantidad_disponible item < UMBRAL_REPOSICION then
        (if (case ultimas_reposiciones d producto_id of
               None \<Rightarrow> False
             | Some ultima_reposicion \<Rightarrow>
                 fecha_operacion < ultima_reposicion + td_days PERIODO_MINIMO_REPOSICION)
         then (False, item, d)
         else
           (let cantidad_repuesta = calcular_cantidad_reposicion pop d producto_id;
                fecha_propuesta = fecha_operacion + td_days dias_reposicion;
                fecha_reposicion_calculada =
                  (if fecha_propuesta > INV_PRODUCTOS_END_DATE_LIMIT
                   then INV_PRODUCTOS_END_DATE_LIMIT else fecha_propuesta);
                fecha_actualizacion_inventario_previa = inv_fecha_actualizacion item;
                item' = item\<lparr>cantidad_disponible := cantidad_disponible item + cantidad_repuesta,
                           cantidad_mano := cantidad_mano item + cantidad_repuesta,
                           inv_fecha_actualizacion :=
                             (if fecha_reposicion_calculada \<le> fecha_actualizacion_inventario_previa
                              then fecha_actualizacion_inventario_previa
                                     + td_seconds MIN_SECONDS_AFTER_PREVIOUS_UPDATE
                              else fecha_reposicion_calculada)\<rparr>;
                d1 = (set_inventario d item')
                       \<lparr>ultimas_reposiciones :=
                          (ultimas_reposiciones d)(producto_id \<mapsto> inv_fecha_actualizacion item')\<rparr>;
                d2 = (case get_producto d1 producto_id of
                        None \<Rightarrow> d1
                      | Some prd \<Rightarrow>
                          if prod_estado prd = Inactivo then
                            set_producto d1 producto_id
                              (\<lambda>p. p\<lparr>prod_estado := Activo,
                                      prod_fecha_actualizacion :=
                                        (if inv_fecha_actualizacion item' \<le> prod_fecha_actualizacion p
                                         then prod_fecha_actualizacion p
                                                + td_seconds MIN_SECONDS_AFTER_PREVIOUS_UPDATE
                                         else inv_fecha_actualizacion item')\<rparr>)
                          else d1)
            in (True, item', d2)))
      else (False, item, d))"

text \<open>
  \<^verbatim>\<open>actualizar_inventario_por_pedido\<close>: the flag, the returned inventory
  (\<^verbatim>\<open>None\<close> when the product has no inventory row) and the session afterwards.
\<close>

definition actualizar_inventario_por_pedido ::
  "(nat \<Rightarrow> rat) \<Rightarrow> int \<Rightarrow> db \<Rightarrow> detalle_pedido \<Rightarrow> datetime
     \<Rightarrow> bool \<times> inventario option \<times> db" where
  "actualizar_inventario_por_pedido pop dias_reposicion d detalle fecha_operacion =
     (case get_inventario d (det_producto_id detalle) of
        None \<Rightarrow> (False, None, d)
      | Some item \<Rightarrow>
          (let cantidad_solicitada = cantidad detalle in
           if cantidad_disponible item < cantidad_solicitada then (False, Some item, d)
           else
             (let item1 = item\<lparr>cantidad_disponible := cantidad_disponible item - cantidad_solicitada,
                              cantidad_mano := cantidad_mano item - cantidad_solicitada,
                              inv_fecha_actualizacion := fecha_operacion\<rparr>;
                  d1 = set_inventario d item1;
                  d2 = (if cantidad_disponible item1 = 0 then
                          (case get_producto d1 (det_producto_id detalle) of
                             None \<Rightarrow> d1
                           | Some prd \<Rightarrow>
                               if prod_estado prd \<noteq> Inactivo then
                                 set_producto d1 (det_producto_id detalle)
                                   (\<lambda>p. p\<lparr>prod_estado := Inactivo,
                                           prod_fecha_actualizacion := fecha_operacion\<rparr>)
                               else d1)
                        else d1)
              in case verificar_reposicion_inventario pop dias_reposicion d2 item1 fecha_operacion of
                   (reponer, item2, d3) \<Rightarrow> (True, Some item2, d3))))"

text \<open>\<^verbatim>\<open>reponer_stock_tras_cancelacion\<close>\<close>

definition reponer_stock_tras_cancelacion ::
  "db \<Rightarrow> nat \<Rightarrow> int \<Rightarrow> datetime \<Rightarrow> bool \<times> inventario option \<times> db" where
  "reponer_stock_tras_cancelacion d producto_id cantidad_repuesta fecha_operacion =
     (case get_inventario d producto_id of
        None \<Rightarrow> (False, None, d)
      | Some item \<Rightarrow>
          (let cantidad_anterior_disponible = cantidad_disponible item;
               item1 = item\<lparr>cantidad_disponible := cantidad_disponible item + cantidad_repuesta,
                           cantidad_mano := cantidad_mano item + cantidad_repuesta,
                           inv_fecha_actualizacion := fecha_operacion\<rparr>;
               d1 = set_inventario d item1;
               d2 = (if cantidad_anterior_disponible \<le> 0 \<and> 0 < cantidad_disponible item1 then
                       (case get_producto d1 producto_id of
                          None \<Rightarrow> d1
                        | Some prd \<Rightarrow>
                            if prod_estado prd = Inactivo then
                              set_producto d1 producto_id
                                (\<lambda>p. p\<lparr>prod_estado := Activo,
                                        prod_fecha_actualizacion := fecha_operacion\<rparr>)
                            else d1)
                     else d1)
           in (True, Some item1, d2)))"

text \<open>
  \<^verbatim>\<open>create_inventario_inicial\<close>. \<open>rnd_cota\<close> and \<open>rnd_fecha\<close> give, for the
  product at each position, the draws of \<^verbatim>\<open>random.randint(10, 300)\<close> and of
  \<^verbatim>\<open>get_random_datetime_in_range\<close>. The first function builds the list
  \<^verbatim>\<open>inventarios_creados\<close>; the second is \<^verbatim>\<open>db.add_all\<close> and
  \<^verbatim>\<open>db.commit()\<close>, which the unique \<^verbatim>\<open>producto_id\<close> makes fail
  (\<^verbatim>\<open>SQLAlchemyError\<close>, then \<^verbatim>\<open>db.rollback()\<close>) when a product of the list has
  an inventory row already or occurs twice.
\<close>

definition nuevo_inventario :: "nat \<Rightarrow> nat \<Rightarrow> producto \<Rightarrow> inventario" where
  "nuevo_inventario rnd_cota rnd_fecha prd =
     (let cota_inferior_fecha_reg_inv = prod_fecha_registro prd;
          cota_superior_fecha_reg_inv =
            min (prod_fecha_registro prd + td_seconds (randint rnd_cota 10 300))
                INV_PRODUCTOS_END_DATE_LIMIT;
          fecha_registro_inv =
            (if cota_inferior_fecha_reg_inv > cota_superior_fecha_reg_inv
             then cota_inferior_fecha_reg_inv
             else random_datetime_in_range rnd_fecha
                    cota_inferior_fecha_reg_inv cota_superior_fecha_reg_inv);
          cantidad_inicial = 24
      in \<lparr>inv_producto_id = prod_id prd,
          cantidad_mano = cantidad_inicial,
          cantidad_disponible = cantidad_inicial,
          inv_fecha_registro = fecha_registro_inv,
          inv_fecha_actualizacion = fecha_registro_inv\<rparr>)"

fun inventarios_iniciales ::
  "(nat \<Rightarrow> nat) \<Rightarrow> (nat \<Rightarrow> nat) \<Rightarrow> nat \<Rightarrow> producto list \<Rightarrow> inventario list" where
  "inventarios_iniciales rnd_cota rnd_fecha k [] = []"
| "inventarios_iniciales rnd_cota rnd_fecha k (prd # rest) =
     nuevo_inventario (rnd_cota k) (rnd_fecha k) prd
       # inventarios_iniciales rnd_cota rnd_fecha (Suc k) rest"

definition create_inventario_inicial ::
  "(nat \<Rightarrow> nat) \<Rightarrow> (nat \<Rightarrow> nat) \<Rightarrow> db \<Rightarrow> producto list \<Rightarrow> inventario list \<times> db" where
  "create_inventario_inicial rnd_cota rnd_fecha d prods =
     (let inventarios_creados = inventarios_iniciales rnd_cota rnd_fecha 0 prods in
      if distinct (map inv_producto_id inventarios_creados)
         \<and> (\<forall>item \<in> set inventarios_creados. get_inventario d (inv_producto_id item) = None)
      then (inventarios_creados, d\<lparr>inventarios := inventarios d @ inventarios_creados\<rparr>)
      else (inventarios_creados, d))"

section \<open>Order details and the simulated lifecycle (\<^verbatim>\<open>detalle_pedido.py\<close>)\<close>

text \<open>
  \<^verbatim>\<open>pedido.detalles\<close> is the ORM relationship from an order to its detail rows: the
  rows of \<^verbatim>\<open>detalle_pedido\<close> whose \<^verbatim>\<open>pedido_id\<close> is the order's id, loaded from
  the session when the attribute is read.
\<close>

definition pedido_detalles :: "db \<Rightarrow> pedido \<Rightarrow> detalle_pedido list" where
  "pedido_detalles d p = filter (\<lambda>x. det_pedido_id x = ped_id p) (detalles d)"

text \<open>The loop \<^verbatim>\<open>for detalle_item in pedido.detalles\<close> of \<^verbatim>\<open>update_pedido_a_cancelado\<close>.\<close>

fun reponer_detalles :: "db \<Rightarrow> detalle_pedido list \<Rightarrow> datetime \<Rightarrow> db" where
  "reponer_detalles d [] fecha_cancelacion = d"
| "reponer_detalles d (detalle_item # rest) fecha_cancelacion =
     (case reponer_stock_tras_cancelacion d (det_producto_id detalle_item)
             (cantidad detalle_item) fecha_cancelacion of
        (exito_reposicion, _, d') \<Rightarrow> reponer_detalles d' rest fecha_cancelacion)"

definition update_pedido_a_cancelado :: "db \<Rightarrow> pedido \<Rightarrow> datetime \<Rightarrow> bool \<times> pedido \<times> db" where
  "update_pedido_a_cancelado d p fecha_cancelacion =
     (if estado_pedido p = Pendiente
         \<and> ped_fecha_actualizacion p < fecha_cancelacion
         \<and> fecha_cancelacion \<le> SIMULATION_END_DATE
      then
        (let p' = p\<lparr>estado_pedido := Cancelado, ped_fecha_actualizacion := fecha_cancelacion\<rparr>;
             d' = (if pedido_detalles d p' \<noteq> []
                   then reponer_detalles d (pedido_detalles d p') fecha_cancelacion
                   else d)
         in (True, p', d'))
      else (False, p, d))"

text \<open>
  One attempted lifecycle transition: which \<^verbatim>\<open>update_pedido_a_*\<close> is called, with
  the proposed date.
\<close>

datatype transicion = A_Procesando | A_Cancelado | A_Enviado | A_Entregado | A_Reembolsado

fun intentar :: "transicion \<Rightarrow> db \<Rightarrow> pedido \<Rightarrow> datetime \<Rightarrow> bool \<times> pedido \<times> db" where
  "intentar A_Procesando d p fecha =
     (case update_pedido_a_procesando p fecha of (ok, p') \<Rightarrow> (ok, p', d))"
| "intentar A_Cancelado d p fecha = update_pedido_a_cancelado d p fecha"
| "intentar A_Enviado d p fecha =
     (case update_pedido_a_enviado p fecha of (ok, p') \<Rightarrow> (ok, p', d))"
| "intentar A_Entregado d p fecha =
     (case update_pedido_a_entregado p fecha of (ok, p') \<Rightarrow> (ok, p', d))"
| "intentar A_Reembolsado d p fecha =
     (case update_pedido_a_reembolsado p fecha of (ok, p') \<Rightarrow> (ok, p', d))"

text \<open>
  A sequence of attempted transitions on one order. The history lists the state and
  \<^verbatim>\<open>fecha_actualizacion\<close> the order had at the start and after each transition that
  was applied, oldest first.
\<close>

fun historial ::
  "db \<Rightarrow> pedido \<Rightarrow> (transicion \<times> datetime) list \<Rightarrow> (EstadoPedidoEnum \<times> datetime) list" where
  "historial d p [] = [(estado_pedido p, ped_fecha_actualizacion p)]"
| "historial d p ((t, fecha) # rest) =
     (case intentar t d p fecha of
        (ok, p', d') \<Rightarrow>
          if ok then (estado_pedido p, ped_fecha_actualizacion p) # historial d' p' rest
          else historial d' p' rest)"

text \<open>The state machine of the specification: the permitted source state of each target.\<close>

definition permitida :: "EstadoPedidoEnum \<Rightarrow> EstadoPedidoEnum \<Rightarrow> bool" where
  "permitida origen dest =
     ((origen, dest) \<in> set [(Pendiente, Procesando), (Pendiente, Cancelado),
                            (Procesando, Enviado), (Enviado, Entregado),
                            (Entregado, Reembolsado), (Cancelado, Reembolsado)])"

fun destino :: "transicion \<Rightarrow> EstadoPedidoEnum" where
  "destino A_Procesando = Procesando"
| "destino A_Cancelado = Cancelado"
| "destino A_Enviado = Enviado"
| "destino A_Entregado = Entregado"
| "destino A_Reembolsado = Reembolsado"

record carrito =
  car_id :: nat
  car_usuario_id :: nat
  car_producto_id :: nat
  car_cantidad :: int
  car_fecha_actualizacion :: datetime

definition PORCENTAJE_CANCELACION_DETALLE :: rat where
  "PORCENTAJE_CANCELACION_DETALLE = 5 / 100"

definition PORCENTAJE_REEMBOLSO_DESDE_ENTREGADO_DETALLE :: rat where
  "PORCENTAJE_REEMBOLSO_DESDE_ENTREGADO_DETALLE = 3 / 100"

definition PORCENTAJE_REEMBOLSO_DESDE_CANCELADO_DETALLE :: rat where
  "PORCENTAJE_REEMBOLSO_DESDE_CANCELADO_DETALLE = 1 / 100"

text \<open>\<^verbatim>\<open>_calcular_fecha_procesando_simulacion\<close> and its two siblings.\<close>

definition calcular_fecha_procesando_simulacion :: "nat \<Rightarrow> datetime \<Rightarrow> datetime" where
  "calcular_fecha_procesando_simulacion rnd fecha_creacion_pedido =
     (let delta = td_minutes (randint rnd 30 60);
          fecha_procesando = fecha_creacion_pedido + delta
      in min fecha_procesando SIMULATION_END_DATE)"

definition calcular_fecha_envio_simulacion ::
  "nat \<Rightarrow> nat \<Rightarrow> datetime \<Rightarrow> datetime \<Rightarrow> datetime" where
  "calcular_fecha_envio_simulacion rnd_dias rnd_segundos fecha_creacion_pedido
       fecha_referencia_anterior =
     (let delta_dias = randint rnd_dias 1 2;
          delta_segundos_adicionales = randint rnd_segundos 0 (24 * 60 * 60 - 1);
          fecha_envio = fecha_creacion_pedido + (td_days delta_dias
                          + td_seconds delta_segundos_adicionales);
          fecha_envio = max fecha_envio (fecha_referencia_anterior + td_seconds 1)
      in min fecha_envio SIMULATION_END_DATE)"

definition calcular_fecha_entrega_simulacion ::
  "nat \<Rightarrow> nat \<Rightarrow> datetime \<Rightarrow> datetime \<Rightarrow> datetime" where
  "calcular_fecha_entrega_simulacion rnd_dias rnd_segundos fecha_creacion_pedido
       fecha_referencia_anterior =
     (let delta_dias = randint rnd_dias 4 10;
          delta_segundos_adicionales = randint rnd_segundos 0 (24 * 60 * 60 - 1);
          fecha_entrega = fecha_creacion_pedido + (td_days delta_dias
                            + td_seconds delta_segundos_adicionales);
          fecha_entrega = max fecha_entrega (fecha_referencia_anterior + td_seconds 1)
      in min fecha_entrega SIMULATION_END_DATE)"

text \<open>
  The first loop of \<^verbatim>\<open>create_detalles_for_pedido\<close>: one detail per cart item whose
  product exists, was registered by the order's date and has stock, for the requested
  quantity capped at the available one. It reads the session and writes nothing.
\<close>

fun construir_detalles :: "db \<Rightarrow> pedido \<Rightarrow> datetime \<Rightarrow> carrito list \<Rightarrow> detalle_pedido list" where
  "construir_detalles d p fecha_creacion [] = []"
| "construir_detalles d p fecha_creacion (c # rest) =
     (case get_producto d (car_producto_id c) of
        None \<Rightarrow> construir_detalles d p fecha_creacion rest
      | Some prd \<Rightarrow>
          if prod_fecha_registro prd > fecha_creacion
          then construir_detalles d p fecha_creacion rest
          else
            (case get_inventario d (prod_id prd) of
               None \<Rightarrow> construir_detalles d p fecha_creacion rest
             | Some item \<Rightarrow>
                 (let cantidad_solicitada = car_cantidad c;
                      disponible = cantidad_disponible item
                  in if disponible \<le> 0 then construir_detalles d p fecha_creacion rest
                     else
                       (let cant = (if cantidad_solicitada > disponible
                                    then disponible else cantidad_solicitada);
                            precio = precio_venta prd
                        in \<lparr>det_pedido_id = ped_id p,
                            det_producto_id = prod_id prd,
                            cantidad = cant,
                            precio_unitario = precio,
                            subtotal = of_int cant * precio,
                            det_fecha_registro = fecha_creacion,
                            det_fecha_actualizacion = fecha_creacion\<rparr>
                           # construir_detalles d p fecha_creacion rest))))"

text \<open>
  The draws of one run of \<^verbatim>\<open>create_detalles_for_pedido\<close>, in the order of the code:
  the cancellation test and its delay in minutes, the delays of the three forward
  transitions, the refund test and its delay, and, for the inventory update of the
  detail at each position, the restock delay in days and the popularity scores that
  \<^verbatim>\<open>calcular_popularidad\<close> returns at that moment.
\<close>

record sorteo_ciclo =
  u_cancelacion :: rat
  rnd_cancelacion :: nat
  rnd_procesando :: nat
  rnd_envio_dias :: nat
  rnd_envio_segundos :: nat
  rnd_entrega_dias :: nat
  rnd_entrega_segundos :: nat
  u_reembolso :: rat
  rnd_reembolso :: nat
  rnd_reposicion :: "nat \<Rightarrow> nat"
  popularidad :: "nat \<Rightarrow> nat \<Rightarrow> rat"

text \<open>
  The variables the simulated lifecycle carries: the order, the session,
  \<^verbatim>\<open>pedido_fue_cancelado_simulado\<close> and \<^verbatim>\<open>fecha_actual_del_pedido\<close>.
  \<^verbatim>\<open>update_envio\<close> and \<^verbatim>\<open>create_comentario\<close> write shipment and comment rows only,
  which are not part of the modelled session.
\<close>

record ciclo =
  c_pedido :: pedido
  c_db :: db
  pedido_fue_cancelado_simulado :: bool
  fecha_actual_del_pedido :: datetime

definition paso_cancelacion :: "sorteo_ciclo \<Rightarrow> ciclo \<Rightarrow> ciclo" where
  "paso_cancelacion s c =
     (if random_random (u_cancelacion s) < PORCENTAJE_CANCELACION_DETALLE then
        (let delta_cancelacion = td_minutes (randint (rnd_cancelacion s) 1 29);
             fecha_cancelacion_propuesta = ped_fecha_registro (c_pedido c) + delta_cancelacion;
             fecha_cancelacion_simulada = min fecha_cancelacion_propuesta SIMULATION_END_DATE
         in if fecha_cancelacion_simulada > fecha_actual_del_pedido c then
              (case update_pedido_a_cancelado (c_db c) (c_pedido c) fecha_cancelacion_simulada of
                 (ok, p', d') \<Rightarrow>
                   if ok then c\<lparr>c_pedido := p', c_db := d',
                                 pedido_fue_cancelado_simulado := True,
                                 fecha_actual_del_pedido := ped_fecha_actualizacion p'\<rparr>
                   else c\<lparr>c_pedido := p', c_db := d'\<rparr>)
            else c)
      else c)"

definition paso_procesando :: "sorteo_ciclo \<Rightarrow> ciclo \<Rightarrow> ciclo" where
  "paso_procesando s c =
     (if \<not> pedido_fue_cancelado_simulado c \<and> estado_pedido (c_pedido c) = Pendiente then
        (let fecha_procesando_propuesta =
               calcular_fecha_procesando_simulacion (rnd_procesando s)
                 (ped_fecha_registro (c_pedido c))
         in if fecha_procesando_propuesta > fecha_actual_del_pedido c then
              (case update_pedido_a_procesando (c_pedido c) fecha_procesando_propuesta of
                 (ok, p') \<Rightarrow>
                   if ok then c\<lparr>c_pedido := p',
                                 fecha_actual_del_pedido := ped_fecha_actualizacion p'\<rparr>
                   else c\<lparr>c_pedido := p'\<rparr>)
            else c)
      else c)"

definition paso_envio :: "sorteo_ciclo \<Rightarrow> ciclo \<Rightarrow> ciclo" where
  "paso_envio s c =
     (if estado_pedido (c_pedido c) = Procesando then
        (let fecha_envio_propuesta =
               calcular_fecha_envio_simulacion (rnd_envio_dias s) (rnd_envio_segundos s)
                 (ped_fecha_registro (c_pedido c)) (fecha_actual_del_pedido c)
         in if fecha_envio_propuesta > fecha_actual_del_pedido c then
              (case update_pedido_a_enviado (c_pedido c) fecha_envio_propuesta of
                 (ok, p') \<Rightarrow>
                   if ok then c\<lparr>c_pedido := p',
                                 fecha_actual_del_pedido := ped_fecha_actualizacion p'\<rparr>
                   else c\<lparr>c_pedido := p'\<rparr>)
            else c)
      else c)"

definition paso_entrega :: "sorteo_ciclo \<Rightarrow> ciclo \<Rightarrow> ciclo" where
  "paso_entrega s c =
     (if estado_pedido (c_pedido c) = Enviado then
        (let fecha_entrega_propuesta =
               calcular_fecha_entrega_simulacion (rnd_entrega_dias s) (rnd_entrega_segundos s)
                 (ped_fecha_registro (c_pedido c)) (fecha_actual_del_pedido c)
         in if fecha_entrega_propuesta > fecha_actual_del_pedido c then
              (case update_pedido_a_entregado (c_pedido c) fecha_entrega_propuesta of
                 (ok, p') \<Rightarrow>
                   if ok then c\<lparr>c_pedido := p',
                                 fecha_actual_del_pedido := ped_fecha_actualizacion p'\<rparr>
                   else c\<lparr>c_pedido := p'\<rparr>)
            else c)
      else c)"

text \<open>The body shared by the two refund branches (from Entregado, from Cancelado).\<close>

definition aplicar_reembolso :: "sorteo_ciclo \<Rightarrow> ciclo \<Rightarrow> ciclo" where
  "aplicar_reembolso s c =
     (let fecha_reembolso_propuesta =
            generate_subsequent_update_datetime (rnd_reembolso s) (fecha_actual_del_pedido c)
      in if fecha_reembolso_propuesta > fecha_actual_del_pedido c then
           (case update_pedido_a_reembolsado (c_pedido c) fecha_reembolso_propuesta of
              (ok, p') \<Rightarrow>
                if ok then c\<lparr>c_pedido := p',
                              fecha_actual_del_pedido := ped_fecha_actualizacion p'\<rparr>
                else c\<lparr>c_pedido := p'\<rparr>)
         else c)"

definition paso_reembolso :: "sorteo_ciclo \<Rightarrow> ciclo \<Rightarrow> ciclo" where
  "paso_reembolso s c =
     (if estado_pedido (c_pedido c) = Entregado
         \<and> random_random (u_reembolso s) < PORCENTAJE_REEMBOLSO_DESDE_ENTREGADO_DETALLE
      then aplicar_reembolso s c
      else if estado_pedido (c_pedido c) = Cancelado
         \<and> random_random (u_reembolso s) < PORCENTAJE_REEMBOLSO_DESDE_CANCELADO_DETALLE
      then aplicar_reembolso s c
      else c)"

text \<open>
  The last loop of \<^verbatim>\<open>create_detalles_for_pedido\<close>: the inventory of each created
  detail is debited unless the order was cancelled during the simulation; a product
  whose stock reaches zero is marked inactive. \<open>k\<close> is the position of the detail.
\<close>

fun descontar_detalles ::
  "sorteo_ciclo \<Rightarrow> nat \<Rightarrow> bool \<Rightarrow> datetime \<Rightarrow> datetime \<Rightarrow> db \<Rightarrow> detalle_pedido list \<Rightarrow> db" where
  "descontar_detalles s k cancelado fecha_creacion fecha_actual d [] = d"
| "descontar_detalles s k cancelado fecha_creacion fecha_actual d (detalle_item # rest) =
     (if \<not> cancelado then
        (case actualizar_inventario_por_pedido (popularidad s k) (randint (rnd_reposicion s k) 1 5)
                d detalle_item fecha_creacion of
           (exito, inventario_actualizado, d') \<Rightarrow>
             (let d'' =
                (if \<not> exito then d'
                 else
                   (case inventario_actualizado of
                      None \<Rightarrow> d'
                    | Some item \<Rightarrow>
                        if cantidad_disponible item = 0 then
                          (case get_producto d' (det_producto_id detalle_item) of
                             None \<Rightarrow> d'
                           | Some producto_inv \<Rightarrow>
                               if prod_estado producto_inv \<noteq> Inactivo then
                                 set_producto d' (det_producto_id detalle_item)
                                   (\<lambda>p. p\<lparr>prod_estado := Inactivo,
                                           prod_fecha_actualizacion :=
                                             max fecha_creacion fecha_actual\<rparr>)
                               else d')
                        else d'))
              in descontar_detalles s (Suc k) cancelado fecha_creacion fecha_actual d'' rest))
      else descontar_detalles s (Suc k) cancelado fecha_creacion fecha_actual d rest)"

text \<open>
  \<^verbatim>\<open>create_detalles_for_pedido\<close>: the gross total, the order after the simulated
  lifecycle and the session. \<^verbatim>\<open>db.add_all(detalles_creados)\<close> with
  \<^verbatim>\<open>db.flush()\<close> appends the new rows to the detail table.
\<close>

definition create_detalles_for_pedido ::
  "sorteo_ciclo \<Rightarrow> db \<Rightarrow> pedido \<Rightarrow> carrito list \<Rightarrow> datetime \<Rightarrow> rat \<times> pedido \<times> db" where
  "create_detalles_for_pedido s d p carritos_usuario fecha_creacion =
     (let detalles_creados = construir_detalles d p fecha_creacion carritos_usuario;
          costo_total_bruto = sum_list (map subtotal detalles_creados)
      in if detalles_creados \<noteq> [] then
           (let d1 = d\<lparr>detalles := detalles d @ detalles_creados\<rparr>;
                c0 = \<lparr>c_pedido = p, c_db = d1, pedido_fue_cancelado_simulado = False,
                      fecha_actual_del_pedido = ped_fecha_actualizacion p\<rparr>;
                c5 = paso_reembolso s (paso_entrega s (paso_envio s
                       (paso_procesando s (paso_cancelacion s c0))));
                d2 = descontar_detalles s 0 (pedido_fue_cancelado_simulado c5) fecha_creacion
                       (fecha_actual_del_pedido c5) (c_db c5) detalles_creados
            in (costo_total_bruto, c_pedido c5, d2))
         else (costo_total_bruto, p, d))"

section \<open>Orders from cart sessions (\<^verbatim>\<open>pedidos.py\<close>)\<close>

record usuario =
  usr_id :: nat
  usr_fecha_registro :: datetime

record localizacion_pedido =
  loc_id :: nat
  loc_usuario_id :: nat
  loc_fecha_registro :: datetime

record descuento =
  desc_id :: nat
  porcentaje :: rat
  fecha_inicio :: datetime
  fecha_fin :: datetime

record historial_descuento =
  hist_usuario_id :: nat
  hist_descuento_id :: nat
  hist_fecha_registro :: datetime

text \<open>
  The session as \<^verbatim>\<open>create_pedidos\<close> uses it: the tables of the inventory code
  (\<open>base\<close>) with the users, the delivery locations, the discount history, the
  orders and the counters of the two autoincrement keys it reads after a flush.
  Shipments and their history are written but never read back, and are left out.
\<close>

record tienda =
  base :: db
  usuarios :: "usuario list"
  localizaciones :: "localizacion_pedido list"
  historial_descuentos :: "historial_descuento list"
  pedidos :: "pedido list"
  siguiente_id_localizacion :: nat
  siguiente_id_pedido :: nat

text \<open>
  The first pass of \<^verbatim>\<open>create_pedidos\<close>: the dictionary \<^verbatim>\<open>carritos_por_usuario\<close>,
  whose keys keep the order of their first insertion, as an association list.
\<close>

fun agregar_carrito :: "carrito \<Rightarrow> (nat \<times> carrito list) list \<Rightarrow> (nat \<times> carrito list) list" where
  "agregar_carrito c [] = [(car_usuario_id c, [c])]"
| "agregar_carrito c ((u, cs) # rest) =
     (if u = car_usuario_id c then (u, cs @ [c]) # rest
      else (u, cs) # agregar_carrito c rest)"

definition agrupar_por_usuario :: "carrito list \<Rightarrow> (nat \<times> carrito list) list" where
  "agrupar_por_usuario carritos_ordenados =
     foldl (\<lambda>carritos_por_usuario c. agregar_carrito c carritos_por_usuario) [] carritos_ordenados"

text \<open>
  The second pass, for the carts of one user in date order: a cart joins the current
  group when it comes at most 15 minutes after the group's last cart, and starts a new
  group otherwise; the current group is closed by the next group or by the last cart.
\<close>

fun dividir_en_sesiones :: "carrito list \<Rightarrow> carrito list \<Rightarrow> carrito list list" where
  "dividir_en_sesiones grupo_actual [] = (if grupo_actual = [] then [] else [grupo_actual])"
| "dividir_en_sesiones grupo_actual (c # rest) =
     (if grupo_actual = [] then dividir_en_sesiones [c] rest
      else if car_fecha_actualizacion c - car_fecha_actualizacion (last grupo_actual)
                \<le> td_minutes 15
      then dividir_en_sesiones (grupo_actual @ [c]) rest
      else grupo_actual # dividir_en_sesiones [c] rest)"

text \<open>\<^verbatim>\<open>max(c.fecha_actualizacion for c in grupo)\<close> of a non-empty group.\<close>

definition fecha_maxima :: "carrito list \<Rightarrow> datetime" where
  "fecha_maxima grupo =
     foldl max (car_fecha_actualizacion (hd grupo)) (map car_fecha_actualizacion (tl grupo))"

text \<open>
  The purchase sessions in the order they are processed. \<^verbatim>\<open>sorted\<close> and
  \<^verbatim>\<open>list.sort\<close> are stable, as \<open>sort_key\<close> is.
\<close>

definition sesiones_compra :: "carrito list \<Rightarrow> carrito list list" where
  "sesiones_compra carritos =
     (let carritos_ordenados = sort_key car_fecha_actualizacion carritos;
          carritos_por_usuario = agrupar_por_usuario carritos_ordenados;
          sesiones =
            concat (map (\<lambda>(usuario_id, carritos_usuario).
                           dividir_en_sesiones []
                             (sort_key car_fecha_actualizacion carritos_usuario))
                        carritos_por_usuario)
      in sort_key fecha_maxima sesiones)"

text \<open>
  \<^verbatim>\<open>create_localizacion_for_user\<close> (\<^verbatim>\<open>localizacion_pedido.py\<close>): the latest
  location of the user bounds the date from below; the new row is flushed, or nothing
  is created when the window is empty. Address and texts are left out.
\<close>

definition ultima_localizacion :: "tienda \<Rightarrow> nat \<Rightarrow> localizacion_pedido option" where
  "ultima_localizacion t usuario_id =
     (case sort_key (\<lambda>l. - loc_fecha_registro l)
             (filter (\<lambda>l. loc_usuario_id l = usuario_id) (localizaciones t)) of
        [] \<Rightarrow> None
      | l # _ \<Rightarrow> Some l)"

definition create_localizacion_for_user ::
  "nat \<Rightarrow> tienda \<Rightarrow> usuario \<Rightarrow> datetime \<Rightarrow> datetime option
     \<Rightarrow> localizacion_pedido option \<times> tienda" where
  "create_localizacion_for_user rnd t usr max_allowable_date fecha_minima =
     (let min_possible_date =
            (case fecha_minima of
               None \<Rightarrow>
                 (case ultima_localizacion t (usr_id usr) of
                    None \<Rightarrow> usr_fecha_registro usr
                  | Some l \<Rightarrow> max (usr_fecha_registro usr) (loc_fecha_registro l + td_seconds 1))
                 + td_days 1
             | Some fm \<Rightarrow>
                 (case ultima_localizacion t (usr_id usr) of
                    None \<Rightarrow> fm
                  | Some l \<Rightarrow>
                      if loc_fecha_registro l \<ge> fm then loc_fecha_registro l + td_seconds 1
                      else fm))
      in if min_possible_date > max_allowable_date then (None, t)
         else
           (let fecha_registro = random_datetime_in_range rnd min_possible_date max_allowable_date;
                nueva_localizacion =
                  \<lparr>loc_id = siguiente_id_localizacion t, loc_usuario_id = usr_id usr,
                   loc_fecha_registro = fecha_registro\<rparr>
            in (Some nueva_localizacion,
                t\<lparr>localizaciones := localizaciones t @ [nueva_localizacion],
                  siguiente_id_localizacion := Suc (siguiente_id_localizacion t)\<rparr>)))"

text \<open>
  The draws of one session: the conversion test, the dates of the location and of the
  order, the discount test with its threshold and choice, the shipping cost, the
  lifecycle of the order and the final update delay; and whether the database refuses
  the new order (an \<^verbatim>\<open>SQLAlchemyError\<close> at the flush, answered by a rollback).
\<close>

record sorteo_sesion =
  u_conversion :: rat
  rnd_localizacion :: nat
  rnd_fecha_pedido :: nat
  u_descuento :: rat
  u_umbral_descuento :: rat
  rnd_descuento :: nat
  rnd_costo_envio :: nat
  sorteo_del_ciclo :: sorteo_ciclo
  rnd_actualizacion :: nat
  error_bd :: bool

text \<open>
  Step 3 of the loop body: the discount applied to the order, if any. A discount is
  eligible when the order's date lies in its window and the user has no history row
  for it; an eligible one is taken when \<^verbatim>\<open>random.random()\<close> is below a threshold
  drawn from \<^verbatim>\<open>random.uniform(0.75, 0.95)\<close>.
\<close>

definition elegir_descuento ::
  "sorteo_sesion \<Rightarrow> tienda \<Rightarrow> descuento list \<Rightarrow> nat \<Rightarrow> datetime \<Rightarrow> descuento option" where
  "elegir_descuento s t todos_los_descuentos usuario_id fecha_pedido_definitiva =
     (if todos_los_descuentos \<noteq> [] then
        (let descuentos_validos =
               filter (\<lambda>d. fecha_inicio d \<le> fecha_pedido_definitiva
                            \<and> fecha_pedido_definitiva \<le> fecha_fin d) todos_los_descuentos
         in if descuentos_validos \<noteq> [] then
              (let descuentos_no_usados =
                     filter (\<lambda>d. find (\<lambda>h. hist_usuario_id h = usuario_id
                                            \<and> hist_descuento_id h = desc_id d)
                                      (historial_descuentos t) = None)
                            descuentos_validos
               in if descuentos_no_usados \<noteq> []
                     \<and> random_random (u_descuento s)
                         < random_uniform (u_umbral_descuento s) (75 / 100) (95 / 100)
                  then Some (random_choice (rnd_descuento s) descuentos_no_usados)
                  else None)
            else None)
      else None)"

text \<open>What became of one session of the loop.\<close>

datatype resultado_sesion = Abandonada | Saltada | Creado pedido "descuento option"

text \<open>
  The body of the loop for a session that passed the conversion test, steps 1 to 7.
  Every \<^verbatim>\<open>continue\<close> and every handled exception leaves the tables as they were
  at the last commit, which is the start of the body; the module-level dictionary
  \<^verbatim>\<open>ultimas_reposiciones\<close> is not rolled back. The order code, a label built from
  the date, a counter and a random suffix, is left out.
\<close>

definition crear_pedido_de_sesion ::
  "descuento list \<Rightarrow> sorteo_sesion \<Rightarrow> tienda \<Rightarrow> carrito list \<Rightarrow> resultado_sesion \<times> tienda" where
  "crear_pedido_de_sesion todos_los_descuentos s t grupo_carritos =
     (case grupo_carritos of
        [] \<Rightarrow> (Saltada, t)
      | primer_carrito # _ \<Rightarrow>
     (let usuario_id = car_usuario_id primer_carrito in
      case find (\<lambda>u. usr_id u = usuario_id) (usuarios t) of
        None \<Rightarrow> (Saltada, t)
      | Some usuario_seleccionado \<Rightarrow>
     (let ultima_fecha_carrito = car_fecha_actualizacion (last grupo_carritos);
          min_fecha_localizacion = ultima_fecha_carrito + td_minutes 1;
          max_fecha_localizacion = ultima_fecha_carrito + td_minutes 3;
          ajustar_localizacion = (max_fecha_localizacion \<ge> SIMULATION_END_DATE);
          max_fecha_localizacion =
            (if ajustar_localizacion then SIMULATION_END_DATE - td_minutes 10
             else max_fecha_localizacion)
      in if ajustar_localizacion \<and> min_fecha_localizacion \<ge> max_fecha_localizacion
         then (Saltada, t)
         else
     (case create_localizacion_for_user (rnd_localizacion s) t usuario_seleccionado
             max_fecha_localizacion (Some min_fecha_localizacion) of
        (None, _) \<Rightarrow> (Saltada, t)
      | (Some localizacion_creada, t1) \<Rightarrow>
     (let min_fecha_pedido = loc_fecha_registro localizacion_creada + td_minutes 1;
          max_fecha_pedido = loc_fecha_registro localizacion_creada + td_minutes 3;
          ajustar_pedido = (max_fecha_pedido \<ge> SIMULATION_END_DATE);
          max_fecha_pedido =
            (if ajustar_pedido then SIMULATION_END_DATE - td_minutes 5 else max_fecha_pedido)
      in if ajustar_pedido \<and> min_fecha_pedido \<ge> max_fecha_pedido then (Saltada, t)
         else
     (let fecha_pedido_definitiva =
            random_datetime_in_range (rnd_fecha_pedido s) min_fecha_pedido max_fecha_pedido;
          descuento_aplicado_al_pedido =
            elegir_descuento s t1 todos_los_descuentos usuario_id fecha_pedido_definitiva;
          nuevo_pedido =
            \<lparr>ped_id = siguiente_id_pedido t1, ped_usuario_id = usuario_id, costo_total = 0,
             estado_pedido = Pendiente,
             ped_fecha_registro = fecha_pedido_definitiva,
             ped_fecha_actualizacion = fecha_pedido_definitiva\<rparr>
      in if error_bd s then (Saltada, t)
         else
     (let costo_envio = of_int (randint (rnd_costo_envio s) 5000 20000) in
      case create_detalles_for_pedido (sorteo_del_ciclo s) (base t1) nuevo_pedido
             grupo_carritos fecha_pedido_definitiva of
        (costo_total_bruto, pedido_simulado, d2) \<Rightarrow>
          if costo_total_bruto = 0 then
            (Saltada,
             t\<lparr>base := (base t)\<lparr>ultimas_reposiciones := ultimas_reposiciones d2\<rparr>\<rparr>)
          else
            (let costo_final_pedido =
                   (case descuento_aplicado_al_pedido of
                      None \<Rightarrow> costo_total_bruto + costo_envio
                    | Some dsc \<Rightarrow>
                        costo_total_bruto - costo_total_bruto * (porcentaje dsc / 100)
                          + costo_envio);
                 historial' =
                   (case descuento_aplicado_al_pedido of
                      None \<Rightarrow> historial_descuentos t1
                    | Some dsc \<Rightarrow>
                        historial_descuentos t1
                          @ [\<lparr>hist_usuario_id = usuario_id, hist_descuento_id = desc_id dsc,
                              hist_fecha_registro = fecha_pedido_definitiva\<rparr>]);
                 pedido_final =
                   pedido_simulado
                     \<lparr>costo_total := costo_final_pedido,
                      ped_fecha_actualizacion :=
                        fecha_pedido_definitiva
                          + td_seconds (randint (rnd_actualizacion s) 10 60)\<rparr>
             in (Creado pedido_final descuento_aplicado_al_pedido,
                 t1\<lparr>base := d2, historial_descuentos := historial',
                    pedidos := pedidos t1 @ [pedido_final],
                    siguiente_id_pedido := Suc (siguiente_id_pedido t1)\<rparr>)))))))))"

text \<open>
  The loop over the sessions. \<open>k\<close> is \<^verbatim>\<open>contador_procesados\<close> before the session,
  \<open>total_sesiones\<close> is \<^verbatim>\<open>len(sesiones_compra)\<close>; the result is the list of created orders,
  the session and what became of each session the loop reached. The quotient of the two
  integers is the double nearest to it, as Python's true division gives.
\<close>

fun create_pedidos_bucle ::
  "descuento list \<Rightarrow> (nat \<Rightarrow> sorteo_sesion) \<Rightarrow> nat \<Rightarrow> int \<Rightarrow> nat \<Rightarrow> pedido list \<Rightarrow> tienda
     \<Rightarrow> carrito list list \<Rightarrow> pedido list \<times> tienda \<times> resultado_sesion list" where
  "create_pedidos_bucle descs sorteos total_sesiones num_sesiones_a_convertir k pedidos_creados_list t [] =
     (pedidos_creados_list, t, [])"
| "create_pedidos_bucle descs sorteos total_sesiones num_sesiones_a_convertir k pedidos_creados_list t
       (grupo_carritos # rest) =
     (let contador_procesados = Suc k;
          sesiones_restantes = int total_sesiones - int contador_procesados;
          pedidos_restantes = num_sesiones_a_convertir - int (length pedidos_creados_list)
      in if pedidos_restantes \<le> 0 then (pedidos_creados_list, t, [])
         else
           (let probabilidad_conversion =
                  (if sesiones_restantes > 0
                   then fl (of_int pedidos_restantes / of_int sesiones_restantes)
                   else (1 :: rat))
            in if random_random (u_conversion (sorteos k)) > probabilidad_conversion then
                 (case create_pedidos_bucle descs sorteos total_sesiones num_sesiones_a_convertir
                         contador_procesados pedidos_creados_list t rest of
                    (ps, t', traza) \<Rightarrow> (ps, t', Abandonada # traza))
               else
                 (case crear_pedido_de_sesion descs (sorteos k) t grupo_carritos of
                    (Creado p dsc, t1) \<Rightarrow>
                      (case create_pedidos_bucle descs sorteos total_sesiones num_sesiones_a_convertir
                              contador_procesados (pedidos_creados_list @ [p]) t1 rest of
                         (ps, t', traza) \<Rightarrow> (ps, t', Creado p dsc # traza))
                  | (r, t1) \<Rightarrow>
                      (case create_pedidos_bucle descs sorteos total_sesiones num_sesiones_a_convertir
                              contador_procesados pedidos_creados_list t1 rest of
                         (ps, t', traza) \<Rightarrow> (ps, t', r # traza)))))"

text \<open>
  \<^verbatim>\<open>create_pedidos\<close>. \<open>porcentaje_conversion\<close> is the value of the parameter, a
  float, by default one draw of \<^verbatim>\<open>random.uniform(0.6, 0.9)\<close> made when the module is
  loaded. \<^verbatim>\<open>len(sesiones_compra) * porcentaje_conversion\<close> converts the length to a
  float and multiplies in double precision; \<^verbatim>\<open>int\<close> truncates the product.
\<close>

definition create_pedidos ::
  "(nat \<Rightarrow> sorteo_sesion) \<Rightarrow> tienda \<Rightarrow> descuento list \<Rightarrow> carrito list \<Rightarrow> rat
     \<Rightarrow> pedido list \<times> tienda \<times> resultado_sesion list" where
  "create_pedidos sorteos t todos_los_descuentos carritos porcentaje_conversion =
     (if carritos = [] then ([], t, [])
      else
        (let sesiones = sesiones_compra carritos;
             num_sesiones_a_convertir =
               max 1 (py_int (fl (fl (of_nat (length sesiones)) * porcentaje_conversion)))
         in create_pedidos_bucle todos_los_descuentos sorteos (length sesiones)
              num_sesiones_a_convertir 0 [] t sesiones))"

text \<open>The orders that a trace of the loop records as created, in order.\<close>

fun pedidos_de_traza :: "resultado_sesion list \<Rightarrow> pedido list" where
  "pedidos_de_traza [] = []"
| "pedidos_de_traza (Creado p dsc # rest) = p # pedidos_de_traza rest"
| "pedidos_de_traza (_ # rest) = pedidos_de_traza rest"

section \<open>Invariants of the inventory rows\<close>

text \<open>The bound of the specification on one row, and on every row of the session.\<close>

definition inventario_acotado :: "inventario \<Rightarrow> bool" where
  "inventario_acotado item =
     (0 \<le> cantidad_disponible item \<and> cantidad_disponible item \<le> cantidad_mano item)"

definition inventarios_acotados :: "db \<Rightarrow> bool" where
  "inventarios_acotados d = (\<forall>item \<in> set (inventarios d). inventario_acotado item)"

text \<open>Available and on-hand stock are equal, on one row and on every row.\<close>

definition inventario_igualado :: "inventario \<Rightarrow> bool" where
  "inventario_igualado item = (cantidad_disponible item = cantidad_mano item)"

definition inventarios_igualados :: "db \<Rightarrow> bool" where
  "inventarios_igualados d = (\<forall>item \<in> set (inventarios d). inventario_igualado item)"

section \<open>Example data\<close>

text \<open>
  One product with its initial inventory of 24 units, an order placed on 2024-03-01 at
  12:00 from a cart holding 2 units of the product, and two sets of draws: one in which
  the order is cancelled 10 minutes after its creation, one in which it runs through
  to delivery.
\<close>

definition producto_ejemplo :: producto where
  "producto_ejemplo =
     \<lparr>prod_id = 1, proveedor_id = 1, prod_estado = Activo, precio_venta = 25000,
      prod_fecha_registro = mk_datetime 2024 1 10 9 0 0,
      prod_fecha_actualizacion = mk_datetime 2024 1 10 9 0 0\<rparr>"

definition inventario_ejemplo :: inventario where
  "inventario_ejemplo =
     \<lparr>inv_producto_id = 1, cantidad_mano = 24, cantidad_disponible = 24,
      inv_fecha_registro = mk_datetime 2024 1 10 9 2 0,
      inv_fecha_actualizacion = mk_datetime 2024 1 10 9 2 0\<rparr>"

definition db_ejemplo :: db where
  "db_ejemplo =
     \<lparr>productos = [producto_ejemplo], inventarios = [inventario_ejemplo],
      detalles = [], ultimas_reposiciones = Map.empty\<rparr>"

definition pedido_ejemplo :: pedido where
  "pedido_ejemplo =
     \<lparr>ped_id = 1, ped_usuario_id = 1, costo_total = 0, estado_pedido = Pendiente,
      ped_fecha_registro = mk_datetime 2024 3 1 12 0 0,
      ped_fecha_actualizacion = mk_datetime 2024 3 1 12 0 0\<rparr>"

definition carrito_ejemplo :: carrito where
  "carrito_ejemplo =
     \<lparr>car_id = 1, car_usuario_id = 1, car_producto_id = 1, car_cantidad = 2,
      car_fecha_actualizacion = mk_datetime 2024 3 1 11 55 0\<rparr>"

definition detalle_ejemplo :: detalle_pedido where
  "detalle_ejemplo =
     \<lparr>det_pedido_id = 1, det_producto_id = 1, cantidad = 2, precio_unitario = 25000,
      subtotal = 50000, det_fecha_registro = mk_datetime 2024 3 1 12 0 0,
      det_fecha_actualizacion = mk_datetime 2024 3 1 12 0 0\<rparr>"

definition sorteo_cancelado :: sorteo_ciclo where
  "sorteo_cancelado =
     \<lparr>u_cancelacion = 0, rnd_cancelacion = 9, rnd_procesando = 0,
      rnd_envio_dias = 0, rnd_envio_segundos = 0,
      rnd_entrega_dias = 0, rnd_entrega_segundos = 0,
      u_reembolso = 1 / 2, rnd_reembolso = 0,
      rnd_reposicion = (\<lambda>k. 0), popularidad = (\<lambda>k i. 5)\<rparr>"

definition sorteo_entregado :: sorteo_ciclo where
  "sorteo_entregado = sorteo_cancelado\<lparr>u_cancelacion := 1 / 2\<rparr>"

definition inventario_bajo :: inventario where
  "inventario_bajo = inventario_ejemplo\<lparr>cantidad_mano := 5, cantidad_disponible := 5\<rparr>"

definition db_bajo :: db where
  "db_bajo = db_ejemplo\<lparr>inventarios := [inventario_bajo]\<rparr>"

text \<open>
  Three clients, each with one cart item holding 2 units of the example product, at
  11:55, 12:20 and 13:00 on 2024-03-01: three purchase sessions. One discount of 10
  per cent runs through March 2024. The draws abandon the first session and convert
  the second, taking the discount.
\<close>

definition carritos_ejemplo :: "carrito list" where
  "carritos_ejemplo =
     [carrito_ejemplo,
      carrito_ejemplo\<lparr>car_id := 2, car_usuario_id := 2,
                       car_fecha_actualizacion := mk_datetime 2024 3 1 12 20 0\<rparr>,
      carrito_ejemplo\<lparr>car_id := 3, car_usuario_id := 3,
                       car_fecha_actualizacion := mk_datetime 2024 3 1 13 0 0\<rparr>]"

definition descuento_ejemplo :: descuento where
  "descuento_ejemplo =
     \<lparr>desc_id = 1, porcentaje = 10,
      fecha_inicio = mk_datetime 2024 3 1 0 0 0, fecha_fin = mk_datetime 2024 3 31 23 59 59\<rparr>"

definition tienda_ejemplo :: tienda where
  "tienda_ejemplo =
     \<lparr>base = db_ejemplo,
      usuarios = [\<lparr>usr_id = 1, usr_fecha_registro = mk_datetime 2024 1 20 8 0 0\<rparr>,
                  \<lparr>usr_id = 2, usr_fecha_registro = mk_datetime 2024 1 21 8 0 0\<rparr>,
                  \<lparr>usr_id = 3, usr_fecha_registro = mk_datetime 2024 1 22 8 0 0\<rparr>],
      localizaciones = [], historial_descuentos = [], pedidos = [],
      siguiente_id_localizacion = 1, siguiente_id_pedido = 1\<rparr>"

definition sorteo_sesion_ejemplo :: sorteo_sesion where
  "sorteo_sesion_ejemplo =
     \<lparr>u_conversion = 0, rnd_localizacion = 0, rnd_fecha_pedido = 0,
      u_descuento = 0, u_umbral_descuento = 0, rnd_descuento = 0, rnd_costo_envio = 0,
      sorteo_del_ciclo = sorteo_entregado, rnd_actualizacion = 0, error_bd = False\<rparr>"

definition sorteos_ejemplo :: "nat \<Rightarrow> sorteo_sesion" where
  "sorteos_ejemplo k =
     (if k = 0 then sorteo_sesion_ejemplo\<lparr>u_conversion := 9 / 10\<rparr> else sorteo_sesion_ejemplo)"

text \<open>
  Ten cart items of the first client, one per hour from 08:00 to 17:00 on 2024-03-01:
  ten purchase sessions.
\<close>

definition carritos_diez :: "carrito list" where
  "carritos_diez =
     map (\<lambda>h. carrito_ejemplo\<lparr>car_id := nat h,
                                car_fecha_actualizacion := mk_datetime 2024 3 1 h 0 0\<rparr>)
       [8, 9, 10, 11, 12, 13, 14, 15, 16, 17]"

section \<open>Verified properties\<close>

subsection \<open>Rounding to a double\<close>

lemma bit_length_bounds:
  "0 < a \<Longrightarrow> 2 ^ (bit_length a - 1) \<le> a \<and> a < 2 ^ bit_length a"
proof (induction a rule: bit_length.induct)
  case (1 a)
  show ?case
  proof (cases "a = 1")
    case True
    then show ?thesis by (simp add: bit_length.simps[of 1] bit_length.simps[of 0])
  next
    case False
    then have h: "0 < a div 2" using 1(2) by simp
    have ih: "2 ^ (bit_length (a div 2) - 1) \<le> a div 2 \<and> a div 2 < 2 ^ bit_length (a div 2)"
      using 1(1) 1(2) h by simp
    have pos: "0 < bit_length (a div 2)"
      using h by (simp add: bit_length.simps[of "a div 2"])
    have eq: "bit_length a = Suc (bit_length (a div 2))"
      using 1(2) by (simp add: bit_length.simps[of a])
    have lo: "(2::int) ^ (bit_length a - 1) = 2 * 2 ^ (bit_length (a div 2) - 1)"
      using pos eq by (cases "bit_length (a div 2)") simp_all
    have "2 * (a div 2) \<le> a" by simp
    moreover have "a < 2 * (a div 2) + 2" by linarith
    moreover have hi: "(2::int) ^ bit_length a = 2 * 2 ^ bit_length (a div 2)"
      by (simp add: eq)
    ultimately show ?thesis using ih unfolding lo hi by linarith
  qed
qed

lemma powi_nat: "(2::rat) powi (int n) = 2 ^ n"
  by (simp add: power_int_def)

lemma exponente_bounds:
  assumes "0 < x"
  shows "2 powi exponente x \<le> x \<and> x < 2 powi (exponente x + 1)"
proof -
  obtain a b where q: "quotient_of x = (a, b)" by (cases "quotient_of x")
  have b: "0 < b" using quotient_of_denom_pos[OF q] .
  have x: "x = of_int a / of_int b" using quotient_of_div[OF q] .
  have a: "0 < a" using assms b x by (simp add: zero_less_divide_iff)
  define la where "la = bit_length a"
  define lb where "lb = bit_length b"
  have ba: "2 ^ (la - 1) \<le> a" "a < 2 ^ la" using bit_length_bounds[OF a] by (simp_all add: la_def)
  have bb: "2 ^ (lb - 1) \<le> b" "b < 2 ^ lb" using bit_length_bounds[OF b] by (simp_all add: lb_def)
  have la0: "0 < la" using a by (simp add: la_def bit_length.simps[of a])
  have lb0: "0 < lb" using b by (simp add: lb_def bit_length.simps[of b])
  define k where "k = int la - int lb"
  have up: "x < 2 powi (k + 1)"
  proof -
    have "(of_int a :: rat) < 2 ^ la" using ba(2) by (metis of_int_less_iff of_int_numeral of_int_power)
    moreover have "(2::rat) ^ (lb - 1) \<le> of_int b"
      using bb(1) by (metis of_int_le_iff of_int_numeral of_int_power)
    moreover have "(2::rat) ^ la = 2 powi (k + 1) * 2 ^ (lb - 1)"
    proof -
      have "(2::rat) powi (k + 1) * 2 powi (int (lb - 1)) = 2 powi (k + 1 + int (lb - 1))"
        by (simp add: power_int_add)
      also have "k + 1 + int (lb - 1) = int la" using lb0 by (simp add: k_def)
      finally show ?thesis by (simp add: powi_nat)
    qed
    moreover have "(2::rat) powi (k + 1) * 2 ^ (lb - 1) \<le> 2 powi (k + 1) * of_int b"
      using \<open>(2::rat) ^ (lb - 1) \<le> of_int b\<close> by (intro mult_left_mono) simp_all
    ultimately have "(of_int a :: rat) < 2 powi (k + 1) * of_int b"
      by linarith
    then show ?thesis using b by (simp add: x pos_divide_less_eq)
  qed
  have lo: "2 powi (k - 1) \<le> x"
  proof -
    have "(2::rat) ^ (la - 1) \<le> of_int a" using ba(1) by (metis of_int_le_iff of_int_numeral of_int_power)
    moreover have "(of_int b :: rat) \<le> 2 ^ lb"
      using bb(2) by (metis less_imp_le of_int_less_iff of_int_numeral of_int_power)
    moreover have "(2::rat) powi (k - 1) * 2 ^ lb = 2 ^ (la - 1)"
    proof -
      have "(2::rat) powi (k - 1) * 2 powi (int lb) = 2 powi (k - 1 + int lb)"
        by (simp add: power_int_add)
      also have "k - 1 + int lb = int (la - 1)" using la0 by (simp add: k_def)
      finally show ?thesis by (simp add: powi_nat)
    qed
    moreover have "(2::rat) powi (k - 1) * of_int b \<le> 2 powi (k - 1) * 2 ^ lb"
      using \<open>(of_int b :: rat) \<le> 2 ^ lb\<close> by (intro mult_left_mono) simp_all
    ultimately have "(2::rat) powi (k - 1) * of_int b \<le> of_int a"
      by linarith
    then show ?thesis using b by (simp add: x pos_le_divide_eq)
  qed
  have e: "exponente x = (if 2 powi k \<le> x then k else k - 1)"
    by (simp add: exponente_def q Let_def k_def la_def lb_def)
  show ?thesis using up lo unfolding e by auto
qed


lemma round_half_even_of_int [simp]: "round_half_even (of_int k) = k"
  by (simp add: round_half_even_def)

lemma round_half_even_bounds: "\<lfloor>x\<rfloor> \<le> round_half_even x \<and> round_half_even x \<le> \<lfloor>x\<rfloor> + 1"
  by (simp add: round_half_even_def Let_def)

lemma round_half_even_mono:
  assumes "x \<le> y"
  shows "round_half_even x \<le> round_half_even y"
proof (cases "\<lfloor>x\<rfloor> = \<lfloor>y\<rfloor>")
  case False
  then have "\<lfloor>x\<rfloor> < \<lfloor>y\<rfloor>" using floor_mono[OF assms] by simp
  then show ?thesis
    using round_half_even_bounds[of x] round_half_even_bounds[of y] by linarith
next
  case True
  then have "x - of_int \<lfloor>x\<rfloor> \<le> y - of_int \<lfloor>y\<rfloor>" using assms by simp
  then show ?thesis using True by (auto simp: round_half_even_def Let_def)
qed

lemma round_half_even_ge: "of_int k \<le> x \<Longrightarrow> k \<le> round_half_even x"
  using round_half_even_mono[of "of_int k" x] by (simp only: round_half_even_of_int)

lemma round_half_even_le: "x \<le> of_int k \<Longrightarrow> round_half_even x \<le> k"
  using round_half_even_mono[of x "of_int k"] by (simp only: round_half_even_of_int)

lemma powi_less_iff: "(2::rat) powi m < 2 powi n \<longleftrightarrow> m < n"
proof
  assume l: "(2::rat) powi m < 2 powi n"
  show "m < n"
  proof (rule ccontr)
    assume "\<not> m < n"
    then have "n \<le> m" by simp
    then have "(2::rat) powi n \<le> 2 powi m" by (intro power_int_increasing) simp_all
    with l show False by simp
  qed
next
  assume "m < n"
  then show "(2::rat) powi m < 2 powi n" by (intro power_int_strict_increasing) simp_all
qed

lemma powi_le_iff: "(2::rat) powi m \<le> 2 powi n \<longleftrightarrow> m \<le> n"
  using powi_less_iff[of n m] by (simp add: not_less[symmetric] del: not_less)

lemma round_half_even_error: "\<bar>of_int (round_half_even x) - x\<bar> \<le> 1 / 2"
proof -
  have "of_int \<lfloor>x\<rfloor> \<le> x" "x < of_int \<lfloor>x\<rfloor> + 1" by linarith+
  then show ?thesis by (auto simp: round_half_even_def Let_def abs_le_iff)
qed

lemma powi_split: "(2::rat) powi (a + b) = 2 powi a * 2 powi b"
  by (rule power_int_add) simp

lemma powi_nonneg_int: "0 \<le> k \<Longrightarrow> (2::rat) powi k = of_int (2 ^ nat k)"
  by (simp add: power_int_def)

lemma fl_pos_eq: "fl_pos x = of_int (round_half_even (x / 2 powi ulp_exponent x)) * 2 powi ulp_exponent x"
  by (simp add: fl_pos_def Let_def)

lemma fl_pos_nonneg:
  assumes "0 \<le> x"
  shows "0 \<le> fl_pos x"
proof -
  have "of_int 0 \<le> x / 2 powi ulp_exponent x" using assms by simp
  then have "0 \<le> round_half_even (x / 2 powi ulp_exponent x)" by (rule round_half_even_ge)
  then show ?thesis unfolding fl_pos_eq by simp
qed

lemma fl_pos_le_powi:
  assumes "x \<le> 2 powi k" "ulp_exponent x \<le> k"
  shows "fl_pos x \<le> 2 powi k"
proof -
  define j where "j = ulp_exponent x"
  define q :: rat where "q = 2 powi j"
  have q0: "0 < q" by (simp add: q_def)
  have "(2::rat) powi (j + (k - j)) = 2 powi j * 2 powi (k - j)" by (rule powi_split)
  then have k: "(2::rat) powi k = q * of_int (2 ^ nat (k - j))"
    using assms(2) by (simp add: q_def j_def powi_nonneg_int)
  have "x / q \<le> of_int (2 ^ nat (k - j))"
    using assms(1) q0 unfolding k by (simp add: pos_divide_le_eq mult.commute)
  then have "round_half_even (x / q) \<le> 2 ^ nat (k - j)" by (rule round_half_even_le)
  then have "(of_int (round_half_even (x / q)) :: rat) \<le> of_int (2 ^ nat (k - j))"
    by (simp only: of_int_le_iff)
  then have "of_int (round_half_even (x / q)) * q \<le> of_int (2 ^ nat (k - j)) * q"
    using q0 by (intro mult_right_mono) simp_all
  then show ?thesis unfolding fl_pos_eq k q_def j_def by (simp add: mult.commute)
qed

lemma fl_pos_ge_powi:
  assumes "2 powi k \<le> x" "ulp_exponent x \<le> k"
  shows "2 powi k \<le> fl_pos x"
proof -
  define j where "j = ulp_exponent x"
  define q :: rat where "q = 2 powi j"
  have q0: "0 < q" by (simp add: q_def)
  have "(2::rat) powi (j + (k - j)) = 2 powi j * 2 powi (k - j)" by (rule powi_split)
  then have k: "(2::rat) powi k = q * of_int (2 ^ nat (k - j))"
    using assms(2) by (simp add: q_def j_def powi_nonneg_int)
  have "of_int (2 ^ nat (k - j)) \<le> x / q"
    using assms(1) q0 unfolding k by (simp add: pos_le_divide_eq mult.commute)
  then have "2 ^ nat (k - j) \<le> round_half_even (x / q)" by (rule round_half_even_ge)
  then have "(of_int (2 ^ nat (k - j)) :: rat) \<le> of_int (round_half_even (x / q))"
    by (simp only: of_int_le_iff)
  then have "of_int (2 ^ nat (k - j)) * q \<le> of_int (round_half_even (x / q)) * q"
    using q0 by (intro mult_right_mono) simp_all
  then show ?thesis unfolding fl_pos_eq k q_def j_def by (simp add: mult.commute)
qed

lemma exponente_mono:
  assumes "0 < x" "x \<le> y"
  shows "exponente x \<le> exponente y"
proof -
  have "2 powi exponente x \<le> x" using exponente_bounds[OF assms(1)] by simp
  moreover have "y < 2 powi (exponente y + 1)" using exponente_bounds[of y] assms by simp
  ultimately have "(2::rat) powi exponente x < 2 powi (exponente y + 1)" using assms(2) by linarith
  then have "exponente x < exponente y + 1"
    by (simp only: powi_less_iff)
  then show ?thesis by simp
qed


lemma fl_pos_mono:
  assumes "0 < x" "x \<le> y"
  shows "fl_pos x \<le> fl_pos y"
proof (cases "ulp_exponent x = ulp_exponent y")
  case True
  define q :: rat where "q = 2 powi ulp_exponent y"
  have q0: "0 < q" by (simp add: q_def)
  have "x / q \<le> y / q" using assms(2) q0 by (simp add: divide_right_mono)
  then have "round_half_even (x / q) \<le> round_half_even (y / q)" by (rule round_half_even_mono)
  then have "(of_int (round_half_even (x / q)) :: rat) * q \<le> of_int (round_half_even (y / q)) * q"
    using q0 by (intro mult_right_mono) simp_all
  then show ?thesis unfolding fl_pos_eq True q_def .
next
  case False
  have y0: "0 < y" using assms by simp
  have le: "exponente x \<le> exponente y" by (rule exponente_mono[OF assms])
  with False have lt: "exponente x < exponente y" and uy: "ulp_exponent y = exponente y - 52"
    and ux: "ulp_exponent x < exponente y - 52"
    by (auto simp: ulp_exponent_def max_def split: if_splits)
  have "x < 2 powi (exponente x + 1)" using exponente_bounds[OF assms(1)] by simp
  moreover have "(2::rat) powi (exponente x + 1) \<le> 2 powi exponente y"
    using lt unfolding powi_le_iff by simp
  ultimately have "x \<le> 2 powi exponente y" by linarith
  then have "fl_pos x \<le> 2 powi exponente y" using ux by (intro fl_pos_le_powi) simp_all
  also have "\<dots> \<le> fl_pos y"
    using exponente_bounds[OF y0] uy by (intro fl_pos_ge_powi) simp_all
  finally show ?thesis .
qed

lemma fl_0 [simp]: "fl 0 = 0"
  by (simp add: fl_def)

lemma fl_nonneg: "0 \<le> x \<Longrightarrow> 0 \<le> fl x"
  using fl_pos_nonneg[of x] by (simp add: fl_def)

lemma fl_mono:
  assumes "x \<le> y"
  shows "fl x \<le> fl y"
proof -
  consider "0 < x" | "x = 0" | "x < 0" "0 \<le> y" | "x < 0" "y < 0" by linarith
  then show ?thesis
  proof cases
    case 1
    then show ?thesis using assms fl_pos_mono[of x y] by (simp add: fl_def)
  next
    case 2
    then show ?thesis using assms fl_nonneg[of y] by simp
  next
    case 3
    have "fl x \<le> 0" using 3(1) fl_pos_nonneg[of "- x"] by (simp add: fl_def)
    then show ?thesis using fl_nonneg[OF 3(2)] by linarith
  next
    case 4
    then have "fl_pos (- y) \<le> fl_pos (- x)" using assms fl_pos_mono[of "- y" "- x"] by simp
    then show ?thesis using 4 by (simp add: fl_def)
  qed
qed

lemma fl_pos_exact:
  assumes "x / 2 powi ulp_exponent x = of_int m"
  shows "fl_pos x = x"
proof -
  have "fl_pos x = of_int m * 2 powi ulp_exponent x"
    unfolding fl_pos_eq assms by simp
  also have "\<dots> = x" using assms by (simp add: field_simps)
  finally show ?thesis .
qed

lemma fl_of_int_pos:
  assumes "0 < k" "k \<le> 2 ^ 53"
  shows "fl (of_int k) = of_int k"
proof -
  define e where "e = exponente (of_int k)"
  have kp: "(0::rat) < of_int k" using assms(1) by simp
  have b: "2 powi e \<le> (of_int k :: rat)" "(of_int k :: rat) < 2 powi (e + 1)"
    using exponente_bounds[OF kp] by (simp_all add: e_def)
  have "(1::rat) \<le> of_int k" using assms(1) by simp
  then have "(2::rat) powi 0 < 2 powi (e + 1)" using b(2) by simp
  then have e0: "0 \<le> e" unfolding powi_less_iff by simp
  have k53: "(of_int k :: rat) \<le> 2 ^ 53"
    using assms(2) by (metis of_int_le_iff of_int_numeral of_int_power)
  moreover have "(2::rat) powi 53 = 2 ^ 53" using powi_nat[of 53] by simp
  ultimately have "(2::rat) powi e \<le> 2 powi 53" using b(1) by linarith
  then have e53: "e \<le> 53" unfolding powi_le_iff by simp
  have u: "ulp_exponent (of_int k) = e - 52" using e0 by (simp add: ulp_exponent_def e_def)
  show ?thesis
  proof (cases "e \<le> 52")
    case True
    have "(of_int k :: rat) / 2 powi (e - 52) = of_int k * 2 powi (52 - e)"
      by (simp add: power_int_diff field_simps)
    also have "\<dots> = of_int k * 2 ^ nat (52 - e)" using True by (simp add: power_int_def)
    also have "\<dots> = of_int (k * 2 ^ nat (52 - e))" by simp
    finally have "(of_int k :: rat) / 2 powi ulp_exponent (of_int k) = of_int (k * 2 ^ nat (52 - e))"
      unfolding u .
    from fl_pos_exact[OF this] show ?thesis using kp by (simp add: fl_def)
  next
    case False
    then have e: "e = 53" using e53 by simp
    have "(2::rat) ^ 53 \<le> of_int k" using b(1) unfolding e by simp
    then have k: "(of_int k :: rat) = 2 ^ 53" using k53 by linarith
    have "(of_int k :: rat) / 2 powi (e - 52) = of_int (2 ^ 52)"
      unfolding e k by simp
    then have "(of_int k :: rat) / 2 powi ulp_exponent (of_int k) = of_int (2 ^ 52)"
      unfolding u .
    from fl_pos_exact[OF this] show ?thesis using kp by (simp add: fl_def)
  qed
qed

lemma fl_of_int:
  assumes "0 \<le> k" "k \<le> 2 ^ 53"
  shows "fl (of_int k) = of_int k"
  using assms fl_of_int_pos[of k] by (cases "k = 0") simp_all

lemma fl_of_nat: "n \<le> 2 ^ 53 \<Longrightarrow> fl (of_nat n) = of_nat n"
proof -
  assume "n \<le> 2 ^ 53"
  then have "int n \<le> 2 ^ 53" by (metis of_nat_le_iff of_nat_numeral of_nat_power)
  then show ?thesis using fl_of_int[of "int n"] by simp
qed

lemma fl_1 [simp]: "fl 1 = 1"
  using fl_of_int[of 1] by simp

lemma fl_less_1D:
  assumes "fl x < 1"
  shows "x < 1"
proof (rule ccontr)
  assume "\<not> x < 1"
  then have "fl 1 \<le> fl x" by (intro fl_mono) simp
  then show False using assms by simp
qed

lemma fl_pos_error:
  assumes "0 < x"
  shows "\<bar>fl_pos x - x\<bar> \<le> 2 powi ulp_exponent x / 2"
proof -
  define q :: rat where "q = 2 powi ulp_exponent x"
  have q0: "0 < q" by (simp add: q_def)
  have "fl_pos x - x = (of_int (round_half_even (x / q)) - x / q) * q"
    using q0 unfolding fl_pos_eq q_def by (simp add: field_simps)
  then have "\<bar>fl_pos x - x\<bar> = \<bar>of_int (round_half_even (x / q)) - x / q\<bar> * q"
    using q0 by (simp add: abs_mult)
  also have "\<dots> \<le> 1 / 2 * q"
    using q0 round_half_even_error[of "x / q"] by (intro mult_right_mono) simp_all
  finally show ?thesis by (simp add: q_def)
qed


lemma fl_error_small:
  assumes "0 \<le> x" "x \<le> c" "1 \<le> c"
  shows "\<bar>fl x - x\<bar> \<le> c / 2 ^ 53"
proof (cases "x = 0")
  case True
  then show ?thesis using assms by simp
next
  case False
  then have x0: "0 < x" using assms by simp
  have e: "\<bar>fl_pos x - x\<bar> \<le> 2 powi ulp_exponent x / 2" by (rule fl_pos_error[OF x0])
  have "2 powi ulp_exponent x / 2 \<le> c / 2 ^ 53"
  proof (cases "- 1022 \<le> exponente x")
    case True
    then have u: "ulp_exponent x = exponente x - 52" by (simp add: ulp_exponent_def)
    have "(2::rat) powi (exponente x - 52 + 52) = 2 powi (exponente x - 52) * 2 powi 52"
      by (rule powi_split)
    moreover have "(2::rat) powi 52 = 2 ^ 52" using powi_nat[of 52] by simp
    ultimately have "(2::rat) powi exponente x = 2 powi (exponente x - 52) * 2 ^ 52" by simp
    moreover have "2 powi exponente x \<le> x" using exponente_bounds[OF x0] by simp
    ultimately have "2 powi (exponente x - 52) * 2 ^ 52 \<le> c" using assms(2) by simp
    then show ?thesis unfolding u by (simp add: field_simps)
  next
    case False
    then have u: "ulp_exponent x = - 1074" by (simp add: ulp_exponent_def)
    have "(2::rat) powi (- 1074) \<le> 2 powi (- 52)" unfolding powi_le_iff by simp
    also have "(2::rat) powi (- 52) = 1 / 2 ^ 52" by (simp add: power_int_minus field_simps)
    finally have "(2::rat) powi (- 1074) \<le> c / 2 ^ 52" using assms(3) by (simp add: field_simps)
    then show ?thesis unfolding u by (simp add: field_simps)
  qed
  then show ?thesis using e x0 by (simp add: fl_def)
qed

subsection \<open>The order state machine\<close>

lemma intentar_guard:
  "intentar t d p fecha = (ok, p', d') \<Longrightarrow>
     (ok \<longleftrightarrow> permitida (estado_pedido p) (destino t)
              \<and> ped_fecha_actualizacion p < fecha \<and> fecha \<le> SIMULATION_END_DATE)
     \<and> (ok \<longrightarrow> estado_pedido p' = destino t \<and> ped_fecha_actualizacion p' = fecha)
     \<and> (\<not> ok \<longrightarrow> p' = p \<and> d' = d)"
  by (cases t; cases "estado_pedido p")
     (auto simp: update_pedido_a_procesando_def update_pedido_a_cancelado_def
        update_pedido_a_enviado_def update_pedido_a_entregado_def
        update_pedido_a_reembolsado_def permitida_def Let_def split: if_splits)

lemma historial_head:
  "\<exists>rest. historial d p intentos = (estado_pedido p, ped_fecha_actualizacion p) # rest"
proof (induction intentos arbitrary: d p)
  case Nil
  then show ?case by simp
next
  case (Cons a intentos)
  obtain t fecha where a: "a = (t, fecha)" by (cases a)
  obtain ok p' d' where i: "intentar t d p fecha = (ok, p', d')" by (cases "intentar t d p fecha")
  show ?case
  proof (cases ok)
    case True
    then show ?thesis using a i by simp
  next
    case False
    then have "p' = p" using intentar_guard[OF i] by simp
    then show ?thesis using a i False Cons.IH[of d' p] by simp
  qed
qed

lemma historial_successively:
  "successively (\<lambda>x y. permitida (fst x) (fst y) \<and> snd x < snd y) (historial d p intentos)"
proof (induction intentos arbitrary: d p)
  case Nil
  then show ?case by simp
next
  case (Cons a intentos)
  obtain t fecha where a: "a = (t, fecha)" by (cases a)
  obtain ok p' d' where i: "intentar t d p fecha = (ok, p', d')" by (cases "intentar t d p fecha")
  show ?case
  proof (cases ok)
    case True
    obtain rest where r: "historial d' p' intentos = (estado_pedido p', ped_fecha_actualizacion p') # rest"
      using historial_head by blast
    have "successively (\<lambda>x y. permitida (fst x) (fst y) \<and> snd x < snd y) (historial d' p' intentos)"
      by (rule Cons.IH)
    then show ?thesis using a i True r intentar_guard[OF i] by simp
  next
    case False
    then show ?thesis using a i Cons.IH[of d' p'] by simp
  qed
qed


text \<open>
  C3. Whichever lifecycle update is attempted on an order (to Procesando, Cancelado,
  Enviado, Entregado or Reembolsado), it is applied exactly when the order is in a
  permitted source state and the proposed date is strictly after the order's
  \<^verbatim>\<open>fecha_actualizacion\<close> and not after \<^verbatim>\<open>SIMULATION_END_DATE\<close>; when applied the
  order takes the target state and the proposed date; otherwise the function returns
  \<^verbatim>\<open>False\<close> and the order and the session are unchanged. Hence along every sequence of
  attempts the states visited follow the state machine and the dates strictly increase.
\<close>

theorem pedido_transiciones_guardadas:
  "(\<forall>ok p' d'. intentar t d p fecha = (ok, p', d') \<longrightarrow>
       (ok \<longleftrightarrow> permitida (estado_pedido p) (destino t)
                \<and> ped_fecha_actualizacion p < fecha \<and> fecha \<le> SIMULATION_END_DATE)
       \<and> (ok \<longrightarrow> estado_pedido p' = destino t \<and> ped_fecha_actualizacion p' = fecha)
       \<and> (\<not> ok \<longrightarrow> p' = p \<and> d' = d))
   \<and> successively (\<lambda>x y. permitida (fst x) (fst y) \<and> snd x < snd y)
        (historial d p intentos)"
  using intentar_guard historial_successively by blast

text \<open>
  An order placed on 2024-03-01 at 12:00: moving it to Procesando at 12:45 is applied;
  of six attempts, in and out of order and one after the end of the simulation, the
  three legal ones are applied.
\<close>

theorem pedido_transiciones_guardadas_witness:
  "intentar A_Procesando
      \<lparr>productos = [], inventarios = [], detalles = [], ultimas_reposiciones = Map.empty\<rparr>
      \<lparr>ped_id = 1, ped_usuario_id = 1, costo_total = 0, estado_pedido = Pendiente,
       ped_fecha_registro = mk_datetime 2024 3 1 12 0 0,
       ped_fecha_actualizacion = mk_datetime 2024 3 1 12 0 0\<rparr>
      (mk_datetime 2024 3 1 12 45 0)
    = (True,
       \<lparr>ped_id = 1, ped_usuario_id = 1, costo_total = 0, estado_pedido = Procesando,
        ped_fecha_registro = mk_datetime 2024 3 1 12 0 0,
        ped_fecha_actualizacion = mk_datetime 2024 3 1 12 45 0\<rparr>,
       \<lparr>productos = [], inventarios = [], detalles = [], ultimas_reposiciones = Map.empty\<rparr>)
   \<and> permitida Pendiente (destino A_Procesando)
   \<and> mk_datetime 2024 3 1 12 0 0 < mk_datetime 2024 3 1 12 45 0
   \<and> mk_datetime 2024 3 1 12 45 0 \<le> SIMULATION_END_DATE
   \<and> historial
        \<lparr>productos = [], inventarios = [], detalles = [], ultimas_reposiciones = Map.empty\<rparr>
        \<lparr>ped_id = 1, ped_usuario_id = 1, costo_total = 0, estado_pedido = Pendiente,
         ped_fecha_registro = mk_datetime 2024 3 1 12 0 0,
         ped_fecha_actualizacion = mk_datetime 2024 3 1 12 0 0\<rparr>
        [(A_Enviado, mk_datetime 2024 3 2 9 0 0),
         (A_Procesando, mk_datetime 2024 3 1 12 45 0),
         (A_Procesando, mk_datetime 2024 3 1 12 50 0),
         (A_Enviado, mk_datetime 2024 3 1 12 45 0),
         (A_Enviado, mk_datetime 2024 3 2 9 0 0),
         (A_Entregado, mk_datetime 2026 1 1 0 0 0)]
     = [(Pendiente, mk_datetime 2024 3 1 12 0 0),
        (Procesando, mk_datetime 2024 3 1 12 45 0),
        (Enviado, mk_datetime 2024 3 2 9 0 0)]
   \<and> successively (\<lambda>x y. permitida (fst x) (fst y) \<and> snd x < snd y)
        [(Pendiente, mk_datetime 2024 3 1 12 0 0),
         (Procesando, mk_datetime 2024 3 1 12 45 0),
         (Enviado, mk_datetime 2024 3 2 9 0 0)]"
  using pedido_transiciones_guardadas
    [of A_Procesando
        "\<lparr>productos = [], inventarios = [], detalles = [], ultimas_reposiciones = Map.empty\<rparr>"
        "\<lparr>ped_id = 1, ped_usuario_id = 1, costo_total = 0, estado_pedido = Pendiente,
          ped_fecha_registro = mk_datetime 2024 3 1 12 0 0,
          ped_fecha_actualizacion = mk_datetime 2024 3 1 12 0 0\<rparr>"
        "mk_datetime 2024 3 1 12 45 0"
        "[(A_Enviado, mk_datetime 2024 3 2 9 0 0),
         (A_Procesando, mk_datetime 2024 3 1 12 45 0),
         (A_Procesando, mk_datetime 2024 3 1 12 50 0),
         (A_Enviado, mk_datetime 2024 3 1 12 45 0),
         (A_Enviado, mk_datetime 2024 3 2 9 0 0),
         (A_Entregado, mk_datetime 2026 1 1 0 0 0)]"]
  by (simp add: update_pedido_a_procesando_def update_pedido_a_enviado_def
        update_pedido_a_entregado_def permitida_def SIMULATION_END_DATE_def
        mk_datetime_def td_days_def td_hours_def td_minutes_def td_seconds_def
        days_before_year_def days_before_month_def is_leap_def)

subsection \<open>Effect of the inventory operations\<close>

lemma inventarios_set_producto [simp]: "inventarios (set_producto d i f) = inventarios d"
  by (simp add: set_producto_def)

lemma ultimas_set_producto [simp]: "ultimas_reposiciones (set_producto d i f) = ultimas_reposiciones d"
  by (simp add: set_producto_def)

lemma detalles_set_producto [simp]: "detalles (set_producto d i f) = detalles d"
  by (simp add: set_producto_def)

lemma get_inventario_set_producto [simp]: "get_inventario (set_producto d i f) = get_inventario d"
  by (simp add: get_inventario_def fun_eq_iff)

lemma detalles_set_inventario [simp]: "detalles (set_inventario d item) = detalles d"
  by (simp add: set_inventario_def)

lemma ultimas_set_inventario [simp]: "ultimas_reposiciones (set_inventario d item) = ultimas_reposiciones d"
  by (simp add: set_inventario_def)

lemma productos_set_inventario [simp]: "productos (set_inventario d item) = productos d"
  by (simp add: set_inventario_def)

lemma get_inventario_SomeD:
  "get_inventario d i = Some item \<Longrightarrow> inv_producto_id item = i \<and> item \<in> set (inventarios d)"
  by (auto simp: get_inventario_def find_Some_iff)

lemma find_map_replace:
  "find (\<lambda>r. inv_producto_id r = i)
     (map (\<lambda>r. if inv_producto_id r = inv_producto_id item then item else r) rows)
   = (if i = inv_producto_id item
      then (case find (\<lambda>r. inv_producto_id r = i) rows of None \<Rightarrow> None | Some _ \<Rightarrow> Some item)
      else find (\<lambda>r. inv_producto_id r = i) rows)"
  by (induction rows) auto

lemma get_set_inventario:
  "get_inventario (set_inventario d item) i
   = (if i = inv_producto_id item
      then (case get_inventario d i of None \<Rightarrow> None | Some _ \<Rightarrow> Some item)
      else get_inventario d i)"
  by (simp add: get_inventario_def set_inventario_def find_map_replace)

lemma set_inventarios_set_inventario:
  "set (inventarios (set_inventario d item)) \<subseteq> insert item (set (inventarios d))"
  by (auto simp: set_inventario_def)

lemma set_inventario_twice:
  "inv_producto_id a = inv_producto_id b \<Longrightarrow>
     inventarios (set_inventario (set_inventario d a) b) = inventarios (set_inventario d b)"
  by (simp add: set_inventario_def)

lemma determinar_cantidad_reposicion_ge: "12 \<le> determinar_cantidad_reposicion n r"
  by (simp add: determinar_cantidad_reposicion_def)

lemma calcular_cantidad_reposicion_ge: "12 \<le> calcular_cantidad_reposicion pop d i"
  by (simp add: calcular_cantidad_reposicion_def Let_def determinar_cantidad_reposicion_ge
      split: option.splits prod.splits)

lemma verificar_efecto:
  assumes "verificar_reposicion_inventario pop dias d item f = (ok, item', d')"
  shows "inv_producto_id item' = inv_producto_id item"
    and "\<not> ok \<Longrightarrow> item' = item \<and> d' = d"
    and "ok \<Longrightarrow> inventarios d' = inventarios (set_inventario d item')"
    and "ok \<Longrightarrow> \<exists>c\<ge>12. cantidad_disponible item' = cantidad_disponible item + c
                  \<and> cantidad_mano item' = cantidad_mano item + c"
    and "ok \<Longrightarrow> cantidad_disponible item < UMBRAL_REPOSICION"
    and "ok \<Longrightarrow> ultimas_reposiciones d' =
            (ultimas_reposiciones d)(inv_producto_id item \<mapsto> inv_fecha_actualizacion item')"
    and "detalles d' = detalles d"
  using assms calcular_cantidad_reposicion_ge[of pop d "inv_producto_id item"]
  by (auto simp: verificar_reposicion_inventario_def Let_def split: if_splits option.splits)

lemma actualizar_sin_inventario:
  "get_inventario d (det_producto_id det) = None \<Longrightarrow>
     actualizar_inventario_por_pedido pop dias d det f = (False, None, d)"
  by (simp add: actualizar_inventario_por_pedido_def)

lemma actualizar_stock_insuficiente:
  "get_inventario d (det_producto_id det) = Some item \<Longrightarrow>
   cantidad_disponible item < cantidad det \<Longrightarrow>
     actualizar_inventario_por_pedido pop dias d det f = (False, Some item, d)"
  by (simp add: actualizar_inventario_por_pedido_def)

lemma actualizar_descuenta:
  assumes some: "get_inventario d (det_producto_id det) = Some item"
    and enough: "\<not> cantidad_disponible item < cantidad det"
  shows "\<exists>item' d' c. actualizar_inventario_por_pedido pop dias d det f = (True, Some item', d')
            \<and> 0 \<le> c \<and> inv_producto_id item' = det_producto_id det
            \<and> inventarios d' = inventarios (set_inventario d item')
            \<and> detalles d' = detalles d
            \<and> cantidad_disponible item' = cantidad_disponible item - cantidad det + c
            \<and> cantidad_mano item' = cantidad_mano item - cantidad det + c"
proof -
  define item1 where "item1 = item\<lparr>cantidad_disponible := cantidad_disponible item - cantidad det,
                            cantidad_mano := cantidad_mano item - cantidad det,
                            inv_fecha_actualizacion := f\<rparr>"
  define d1 where "d1 = set_inventario d item1"
  define d2 where "d2 = (if cantidad_disponible item1 = 0 then
                        (case get_producto d1 (det_producto_id det) of
                           None \<Rightarrow> d1
                         | Some prd \<Rightarrow>
                             if prod_estado prd \<noteq> Inactivo then
                               set_producto d1 (det_producto_id det)
                                 (\<lambda>p. p\<lparr>prod_estado := Inactivo,
                                         prod_fecha_actualizacion := f\<rparr>)
                             else d1)
                      else d1)"
  obtain rep item2 d3 where v: "verificar_reposicion_inventario pop dias d2 item1 f = (rep, item2, d3)"
    by (cases "verificar_reposicion_inventario pop dias d2 item1 f")
  have res: "actualizar_inventario_por_pedido pop dias d det f = (True, Some item2, d3)"
  proof -
    have "actualizar_inventario_por_pedido pop dias d det f =
            (case verificar_reposicion_inventario pop dias d2 item1 f of
               (reponer, item2, d3) \<Rightarrow> (True, Some item2, d3))"
      unfolding actualizar_inventario_por_pedido_def Let_def item1_def d1_def d2_def
        some option.case if_not_P[OF enough]
      by (rule refl)
    then show ?thesis by (simp add: v)
  qed
  have inv2: "inventarios d2 = inventarios (set_inventario d item1)"
    by (simp add: d2_def d1_def split: option.splits)
  have det2: "detalles d2 = detalles d"
    by (simp add: d2_def d1_def split: option.splits)
  have pid1: "inv_producto_id item1 = det_producto_id det"
    using get_inventario_SomeD[OF some] by (simp add: item1_def)
  have pid2: "inv_producto_id item2 = det_producto_id det"
    using verificar_efecto(1)[OF v] pid1 by simp
  have det3: "detalles d3 = detalles d" using verificar_efecto(7)[OF v] det2 by simp
  show ?thesis
  proof (cases rep)
    case False
    then have "item2 = item1" "d3 = d2" using verificar_efecto(2)[OF v] by auto
    then show ?thesis using res inv2 pid1 det2
      by (intro exI[of _ item1] exI[of _ d2] exI[of _ 0]) (simp add: item1_def)
  next
    case True
    obtain c where c: "12 \<le> c" "cantidad_disponible item2 = cantidad_disponible item1 + c"
      "cantidad_mano item2 = cantidad_mano item1 + c"
      using verificar_efecto(4)[OF v True] by blast
    have "inventarios d3 = inventarios (set_inventario d2 item2)"
      using verificar_efecto(3)[OF v True] .
    also have "\<dots> = inventarios (set_inventario (set_inventario d item1) item2)"
      using inv2 by (simp add: set_inventario_def)
    also have "\<dots> = inventarios (set_inventario d item2)"
      using pid1 pid2 by (simp add: set_inventario_twice)
    finally have "inventarios d3 = inventarios (set_inventario d item2)" .
    then show ?thesis using res c pid2 det3
      by (intro exI[of _ item2] exI[of _ d3] exI[of _ c]) (simp add: item1_def)
  qed
qed

lemma reponer_sin_inventario:
  "get_inventario d i = None \<Longrightarrow> reponer_stock_tras_cancelacion d i q f = (False, None, d)"
  by (simp add: reponer_stock_tras_cancelacion_def)

lemma reponer_efecto:
  assumes "get_inventario d i = Some item"
  shows "\<exists>item' d'. reponer_stock_tras_cancelacion d i q f = (True, Some item', d')
            \<and> inv_producto_id item' = i
            \<and> inventarios d' = inventarios (set_inventario d item')
            \<and> detalles d' = detalles d
            \<and> ultimas_reposiciones d' = ultimas_reposiciones d
            \<and> cantidad_disponible item' = cantidad_disponible item + q
            \<and> cantidad_mano item' = cantidad_mano item + q"
  using assms get_inventario_SomeD[OF assms]
  by (auto simp: reponer_stock_tras_cancelacion_def Let_def split: option.splits)


lemma set_inventario_todos:
  "\<forall>r \<in> set (inventarios d). P r \<Longrightarrow> P item \<Longrightarrow> \<forall>r \<in> set (inventarios (set_inventario d item)). P r"
  by (auto simp: set_inventario_def)

lemma inventarios_eq_todos:
  "inventarios d' = inventarios (set_inventario d item) \<Longrightarrow>
   \<forall>r \<in> set (inventarios d). P r \<Longrightarrow> P item \<Longrightarrow> \<forall>r \<in> set (inventarios d'). P r"
  using set_inventario_todos[of d P item] by simp

subsection \<open>Preservation of the bounds\<close>

lemma verificar_acotado:
  assumes "verificar_reposicion_inventario pop dias d item f = (ok, item', d')"
    and "inventarios_acotados d" and "inventario_acotado item"
  shows "inventario_acotado item' \<and> inventarios_acotados d'"
proof (cases ok)
  case False
  then show ?thesis using verificar_efecto(2)[OF assms(1)] assms by simp
next
  case True
  obtain c where c: "12 \<le> c" "cantidad_disponible item' = cantidad_disponible item + c"
      "cantidad_mano item' = cantidad_mano item + c"
    using verificar_efecto(4)[OF assms(1) True] by blast
  then have i: "inventario_acotado item'"
    using assms(3) by (simp add: inventario_acotado_def)
  then show ?thesis
    using inventarios_eq_todos[OF verificar_efecto(3)[OF assms(1) True], of inventario_acotado]
      assms(2) by (simp add: inventarios_acotados_def)
qed

lemma actualizar_acotado:
  assumes "inventarios_acotados d"
  shows "inventarios_acotados (snd (snd (actualizar_inventario_por_pedido pop dias d det f)))"
proof (cases "get_inventario d (det_producto_id det)")
  case None
  then show ?thesis using assms by (simp add: actualizar_sin_inventario)
next
  case (Some item)
  have it: "inventario_acotado item"
    using get_inventario_SomeD[OF Some] assms by (simp add: inventarios_acotados_def)
  show ?thesis
  proof (cases "cantidad_disponible item < cantidad det")
    case True
    then show ?thesis using assms Some by (simp add: actualizar_stock_insuficiente)
  next
    case False
    obtain item' d' c where r: "actualizar_inventario_por_pedido pop dias d det f = (True, Some item', d')"
      "0 \<le> c" "inventarios d' = inventarios (set_inventario d item')"
      "cantidad_disponible item' = cantidad_disponible item - cantidad det + c"
      "cantidad_mano item' = cantidad_mano item - cantidad det + c"
      using actualizar_descuenta[OF Some False, of pop dias f] by blast
    have "inventario_acotado item'"
      using it r False by (simp add: inventario_acotado_def)
    then show ?thesis
      using inventarios_eq_todos[OF r(3), of inventario_acotado] assms r(1)
      by (simp add: inventarios_acotados_def)
  qed
qed

lemma reponer_acotado:
  assumes "inventarios_acotados d" and "0 \<le> q"
  shows "inventarios_acotados (snd (snd (reponer_stock_tras_cancelacion d i q f)))"
proof (cases "get_inventario d i")
  case None
  then show ?thesis using assms by (simp add: reponer_sin_inventario)
next
  case (Some item)
  have it: "inventario_acotado item"
    using get_inventario_SomeD[OF Some] assms by (simp add: inventarios_acotados_def)
  obtain item' d' where r: "reponer_stock_tras_cancelacion d i q f = (True, Some item', d')"
    "inventarios d' = inventarios (set_inventario d item')"
    "cantidad_disponible item' = cantidad_disponible item + q"
    "cantidad_mano item' = cantidad_mano item + q"
    using reponer_efecto[OF Some, of q f] by blast
  have "inventario_acotado item'"
    using it r assms(2) by (simp add: inventario_acotado_def)
  then show ?thesis
    using inventarios_eq_todos[OF r(2), of inventario_acotado] assms r(1)
    by (simp add: inventarios_acotados_def)
qed

lemma nuevo_inventario_cantidades:
  "cantidad_mano (nuevo_inventario a b prd) = 24 \<and> cantidad_disponible (nuevo_inventario a b prd) = 24"
  by (simp add: nuevo_inventario_def Let_def)

lemma inventarios_iniciales_cantidades:
  "item \<in> set (inventarios_iniciales rc rf k prods) \<Longrightarrow>
     cantidad_mano item = 24 \<and> cantidad_disponible item = 24"
  by (induction prods arbitrary: k) (auto simp: nuevo_inventario_cantidades)

lemma create_inventario_inicial_efecto:
  "set (inventarios (snd (create_inventario_inicial rc rf d prods)))
     \<subseteq> set (inventarios d) \<union> set (fst (create_inventario_inicial rc rf d prods))"
  "fst (create_inventario_inicial rc rf d prods) = inventarios_iniciales rc rf 0 prods"
  by (auto simp: create_inventario_inicial_def Let_def)

lemma create_inventario_inicial_acotado:
  assumes "inventarios_acotados d"
  shows "inventarios_acotados (snd (create_inventario_inicial rc rf d prods))"
  using assms create_inventario_inicial_efecto(1)[of rc rf d prods]
    inventarios_iniciales_cantidades[of _ rc rf 0 prods]
  unfolding inventarios_acotados_def create_inventario_inicial_efecto(2)
  by (fastforce simp: inventario_acotado_def)


lemma reponer_detalles_Cons:
  "reponer_detalles d (x # xs) f =
     reponer_detalles (snd (snd (reponer_stock_tras_cancelacion d (det_producto_id x) (cantidad x) f))) xs f"
  by (simp split: prod.splits)

lemma reponer_detalles_acotado:
  "inventarios_acotados d \<Longrightarrow> \<forall>x \<in> set xs. 0 \<le> cantidad x \<Longrightarrow>
     inventarios_acotados (reponer_detalles d xs f)"
proof (induction xs arbitrary: d)
  case Nil
  then show ?case by simp
next
  case (Cons x xs)
  then show ?case
    unfolding reponer_detalles_Cons by (simp add: reponer_acotado)
qed

lemma reponer_stock_detalles:
  "detalles (snd (snd (reponer_stock_tras_cancelacion d i q f))) = detalles d"
  by (cases "get_inventario d i")
     (use reponer_efecto[of d i _ q f] in \<open>auto simp: reponer_sin_inventario\<close>)

lemma reponer_detalles_detalles: "detalles (reponer_detalles d xs f) = detalles d"
proof (induction xs arbitrary: d)
  case Nil
  then show ?case by simp
next
  case (Cons x xs)
  show ?case unfolding reponer_detalles_Cons by (simp add: Cons.IH reponer_stock_detalles)
qed

lemma update_pedido_a_cancelado_acotado:
  assumes "inventarios_acotados d" and "\<forall>x \<in> set (detalles d). 0 \<le> cantidad x"
  shows "inventarios_acotados (snd (snd (update_pedido_a_cancelado d p f)))"
  using assms
  by (auto simp: update_pedido_a_cancelado_def Let_def pedido_detalles_def
      intro!: reponer_detalles_acotado)

lemma update_pedido_a_cancelado_detalles:
  "detalles (snd (snd (update_pedido_a_cancelado d p f))) = detalles d"
  by (simp add: update_pedido_a_cancelado_def Let_def reponer_detalles_detalles)

lemma paso_cancelacion_db:
  "c_db (paso_cancelacion s c) = c_db c
   \<or> c_db (paso_cancelacion s c) =
       snd (snd (update_pedido_a_cancelado (c_db c) (c_pedido c)
         (min (ped_fecha_registro (c_pedido c) + td_minutes (randint (rnd_cancelacion s) 1 29))
              SIMULATION_END_DATE)))"
  by (auto simp: paso_cancelacion_def Let_def split: prod.splits)

lemma paso_cancelacion_acotado:
  assumes "inventarios_acotados (c_db c)" and "\<forall>x \<in> set (detalles (c_db c)). 0 \<le> cantidad x"
  shows "inventarios_acotados (c_db (paso_cancelacion s c))"
  using paso_cancelacion_db[of s c] update_pedido_a_cancelado_acotado[OF assms] assms(1) by auto

lemma pasos_db [simp]:
  "c_db (paso_procesando s c) = c_db c"
  "c_db (paso_envio s c) = c_db c"
  "c_db (paso_entrega s c) = c_db c"
  "c_db (paso_reembolso s c) = c_db c"
  "c_db (aplicar_reembolso s c) = c_db c"
  by (auto simp: paso_procesando_def paso_envio_def paso_entrega_def paso_reembolso_def
      aplicar_reembolso_def Let_def split: prod.splits)

lemma descontar_detalles_acotado:
  "inventarios_acotados d \<Longrightarrow>
     inventarios_acotados (descontar_detalles s k cancelado fc fa d xs)"
proof (induction xs arbitrary: d k)
  case Nil
  then show ?case by simp
next
  case (Cons x xs)
  show ?case
  proof (cases cancelado)
    case True
    then show ?thesis using Cons by simp
  next
    case False
    obtain exito r d' where a: "actualizar_inventario_por_pedido (popularidad s k)
        (randint (rnd_reposicion s k) 1 5) d x fc = (exito, r, d')"
      by (cases "actualizar_inventario_por_pedido (popularidad s k)
        (randint (rnd_reposicion s k) 1 5) d x fc")
    have d': "inventarios_acotados d'"
      using actualizar_acotado[OF Cons.prems, of "popularidad s k" "randint (rnd_reposicion s k) 1 5" x fc] a
      by simp
    have "\<And>i g. inventarios_acotados (set_producto d' i g)"
      using d' by (simp add: inventarios_acotados_def)
    then show ?thesis using False a d' Cons.IH
      by (auto simp: Let_def split: option.splits)
  qed
qed

lemma construir_detalles_cantidades:
  "\<forall>c \<in> set carritos. 0 \<le> car_cantidad c \<Longrightarrow>
     \<forall>x \<in> set (construir_detalles d p f carritos). 0 \<le> cantidad x"
  by (induction carritos) (auto simp: Let_def split: option.splits)

lemma create_detalles_for_pedido_acotado:
  assumes "inventarios_acotados d"
    and "\<forall>x \<in> set (detalles d). 0 \<le> cantidad x"
    and "\<forall>c \<in> set carritos. 0 \<le> car_cantidad c"
  shows "inventarios_acotados (snd (snd (create_detalles_for_pedido s d p carritos f)))"
proof (cases "construir_detalles d p f carritos = []")
  case True
  then show ?thesis using assms(1) by (simp add: create_detalles_for_pedido_def)
next
  case False
  define d1 where "d1 = d\<lparr>detalles := detalles d @ construir_detalles d p f carritos\<rparr>"
  define c0 where "c0 = \<lparr>c_pedido = p, c_db = d1, pedido_fue_cancelado_simulado = False,
                      fecha_actual_del_pedido = ped_fecha_actualizacion p\<rparr>"
  have 1: "inventarios_acotados (c_db c0)"
    using assms(1) by (simp add: c0_def d1_def inventarios_acotados_def)
  have 2: "\<forall>x \<in> set (detalles (c_db c0)). 0 \<le> cantidad x"
    using assms(2) construir_detalles_cantidades[OF assms(3), of d p f]
    by (auto simp: c0_def d1_def)
  have "inventarios_acotados (c_db (paso_cancelacion s c0))"
    by (rule paso_cancelacion_acotado[OF 1 2])
  then show ?thesis
    using False
    by (simp add: create_detalles_for_pedido_def Let_def descontar_detalles_acotado
        flip: d1_def c0_def)
qed


subsection \<open>Preservation of the equality\<close>

lemma verificar_igualado:
  assumes "verificar_reposicion_inventario pop dias d item f = (ok, item', d')"
    and "inventarios_igualados d" and "inventario_igualado item"
  shows "inventario_igualado item' \<and> inventarios_igualados d'"
proof (cases ok)
  case False
  then show ?thesis using verificar_efecto(2)[OF assms(1)] assms by simp
next
  case True
  obtain c where c: "cantidad_disponible item' = cantidad_disponible item + c"
      "cantidad_mano item' = cantidad_mano item + c"
    using verificar_efecto(4)[OF assms(1) True] by blast
  then have i: "inventario_igualado item'"
    using assms(3) by (simp add: inventario_igualado_def)
  then show ?thesis
    using inventarios_eq_todos[OF verificar_efecto(3)[OF assms(1) True], of inventario_igualado]
      assms(2) by (simp add: inventarios_igualados_def)
qed

lemma actualizar_igualado:
  assumes "inventarios_igualados d"
  shows "inventarios_igualados (snd (snd (actualizar_inventario_por_pedido pop dias d det f)))"
proof (cases "get_inventario d (det_producto_id det)")
  case None
  then show ?thesis using assms by (simp add: actualizar_sin_inventario)
next
  case (Some item)
  have it: "inventario_igualado item"
    using get_inventario_SomeD[OF Some] assms by (simp add: inventarios_igualados_def)
  show ?thesis
  proof (cases "cantidad_disponible item < cantidad det")
    case True
    then show ?thesis using assms Some by (simp add: actualizar_stock_insuficiente)
  next
    case False
    obtain item' d' c where r: "actualizar_inventario_por_pedido pop dias d det f = (True, Some item', d')"
      "inventarios d' = inventarios (set_inventario d item')"
      "cantidad_disponible item' = cantidad_disponible item - cantidad det + c"
      "cantidad_mano item' = cantidad_mano item - cantidad det + c"
      using actualizar_descuenta[OF Some False, of pop dias f] by blast
    have "inventario_igualado item'"
      using it r by (simp add: inventario_igualado_def)
    then show ?thesis
      using inventarios_eq_todos[OF r(2), of inventario_igualado] assms r(1)
      by (simp add: inventarios_igualados_def)
  qed
qed

lemma reponer_igualado:
  assumes "inventarios_igualados d"
  shows "inventarios_igualados (snd (snd (reponer_stock_tras_cancelacion d i q f)))"
proof (cases "get_inventario d i")
  case None
  then show ?thesis using assms by (simp add: reponer_sin_inventario)
next
  case (Some item)
  have it: "inventario_igualado item"
    using get_inventario_SomeD[OF Some] assms by (simp add: inventarios_igualados_def)
  obtain item' d' where r: "reponer_stock_tras_cancelacion d i q f = (True, Some item', d')"
    "inventarios d' = inventarios (set_inventario d item')"
    "cantidad_disponible item' = cantidad_disponible item + q"
    "cantidad_mano item' = cantidad_mano item + q"
    using reponer_efecto[OF Some, of q f] by blast
  have "inventario_igualado item'"
    using it r by (simp add: inventario_igualado_def)
  then show ?thesis
    using inventarios_eq_todos[OF r(2), of inventario_igualado] assms r(1)
    by (simp add: inventarios_igualados_def)
qed

lemma create_inventario_inicial_igualado:
  assumes "inventarios_igualados d"
  shows "inventarios_igualados (snd (create_inventario_inicial rc rf d prods))"
  using assms create_inventario_inicial_efecto(1)[of rc rf d prods]
    inventarios_iniciales_cantidades[of _ rc rf 0 prods]
  unfolding inventarios_igualados_def create_inventario_inicial_efecto(2)
  by (fastforce simp: inventario_igualado_def)

lemma reponer_detalles_igualado:
  "inventarios_igualados d \<Longrightarrow> inventarios_igualados (reponer_detalles d xs f)"
proof (induction xs arbitrary: d)
  case Nil
  then show ?case by simp
next
  case (Cons x xs)
  then show ?case
    unfolding reponer_detalles_Cons by (simp add: reponer_igualado)
qed

lemma update_pedido_a_cancelado_igualado:
  assumes "inventarios_igualados d"
  shows "inventarios_igualados (snd (snd (update_pedido_a_cancelado d p f)))"
  using assms
  by (auto simp: update_pedido_a_cancelado_def Let_def intro!: reponer_detalles_igualado)

lemma paso_cancelacion_igualado:
  assumes "inventarios_igualados (c_db c)"
  shows "inventarios_igualados (c_db (paso_cancelacion s c))"
  using paso_cancelacion_db[of s c] update_pedido_a_cancelado_igualado[OF assms] assms by auto

lemma descontar_detalles_igualado:
  "inventarios_igualados d \<Longrightarrow>
     inventarios_igualados (descontar_detalles s k cancelado fc fa d xs)"
proof (induction xs arbitrary: d k)
  case Nil
  then show ?case by simp
next
  case (Cons x xs)
  show ?case
  proof (cases cancelado)
    case True
    then show ?thesis using Cons by simp
  next
    case False
    obtain exito r d' where a: "actualizar_inventario_por_pedido (popularidad s k)
        (randint (rnd_reposicion s k) 1 5) d x fc = (exito, r, d')"
      by (cases "actualizar_inventario_por_pedido (popularidad s k)
        (randint (rnd_reposicion s k) 1 5) d x fc")
    have d': "inventarios_igualados d'"
      using actualizar_igualado[OF Cons.prems, of "popularidad s k" "randint (rnd_reposicion s k) 1 5" x fc] a
      by simp
    have "\<And>i g. inventarios_igualados (set_producto d' i g)"
      using d' by (simp add: inventarios_igualados_def)
    then show ?thesis using False a d' Cons.IH
      by (auto simp: Let_def split: option.splits)
  qed
qed

lemma create_detalles_for_pedido_igualado:
  assumes "inventarios_igualados d"
  shows "inventarios_igualados (snd (snd (create_detalles_for_pedido s d p carritos f)))"
proof (cases "construir_detalles d p f carritos = []")
  case True
  then show ?thesis using assms(1) by (simp add: create_detalles_for_pedido_def)
next
  case False
  define d1 where "d1 = d\<lparr>detalles := detalles d @ construir_detalles d p f carritos\<rparr>"
  define c0 where "c0 = \<lparr>c_pedido = p, c_db = d1, pedido_fue_cancelado_simulado = False,
                      fecha_actual_del_pedido = ped_fecha_actualizacion p\<rparr>"
  have 1: "inventarios_igualados (c_db c0)"
    using assms(1) by (simp add: c0_def d1_def inventarios_igualados_def)
  have "inventarios_igualados (c_db (paso_cancelacion s c0))"
    by (rule paso_cancelacion_igualado[OF 1])
  then show ?thesis
    using False
    by (simp add: create_detalles_for_pedido_def Let_def descontar_detalles_igualado
        flip: d1_def c0_def)
qed

subsection \<open>Restock cooldown\<close>

lemma verificar_periodo_minimo:
  assumes "ultimas_reposiciones d (inv_producto_id item) = Some u"
    and "f < u + td_days PERIODO_MINIMO_REPOSICION"
  shows "verificar_reposicion_inventario pop dias d item f = (False, item, d)"
  using assms by (simp add: verificar_reposicion_inventario_def Let_def)

text \<open>
  C4. If \<^verbatim>\<open>verificar_reposicion_inventario\<close> restocks a product, the available
  quantity was below 12 (\<^verbatim>\<open>UMBRAL_REPOSICION\<close>) and the date given to the inventory
  row is recorded as the product's last restock; as long as that record stands, every
  later call for the same product with an operation date less than 20 days
  (\<^verbatim>\<open>PERIODO_MINIMO_REPOSICION\<close>) after the recorded date returns \<^verbatim>\<open>False\<close> and
  leaves the inventory object and the session as they were, whatever the stock,
  the popularity and the draw.
\<close>

theorem reposicion_respeta_periodo_minimo:
  "verificar_reposicion_inventario pop dias d item f = (True, item1, d1) \<longrightarrow>
     cantidad_disponible item < 12
     \<and> ultimas_reposiciones d1 (inv_producto_id item) = Some (inv_fecha_actualizacion item1)
     \<and> (\<forall>pop2 dias2 d2 item2 f2.
           inv_producto_id item2 = inv_producto_id item
           \<and> ultimas_reposiciones d2 (inv_producto_id item)
               = ultimas_reposiciones d1 (inv_producto_id item)
           \<and> f2 < inv_fecha_actualizacion item1 + td_days 20
           \<longrightarrow> verificar_reposicion_inventario pop2 dias2 d2 item2 f2 = (False, item2, d2))"
proof
  assume v: "verificar_reposicion_inventario pop dias d item f = (True, item1, d1)"
  have 1: "cantidad_disponible item < 12"
    using verificar_efecto(5)[OF v] by (simp add: UMBRAL_REPOSICION_def)
  have 2: "ultimas_reposiciones d1 (inv_producto_id item) = Some (inv_fecha_actualizacion item1)"
    using verificar_efecto(6)[OF v] by simp
  have 3: "verificar_reposicion_inventario pop2 dias2 d2 item2 f2 = (False, item2, d2)"
    if "inv_producto_id item2 = inv_producto_id item"
      "ultimas_reposiciones d2 (inv_producto_id item) = ultimas_reposiciones d1 (inv_producto_id item)"
      "f2 < inv_fecha_actualizacion item1 + td_days 20"
    for pop2 dias2 d2 item2 f2
    using verificar_periodo_minimo[of d2 item2 "inv_fecha_actualizacion item1" f2 pop2 dias2]
      that 2 by (simp add: PERIODO_MINIMO_REPOSICION_def)
  show "cantidad_disponible item < 12
     \<and> ultimas_reposiciones d1 (inv_producto_id item) = Some (inv_fecha_actualizacion item1)
     \<and> (\<forall>pop2 dias2 d2 item2 f2.
           inv_producto_id item2 = inv_producto_id item
           \<and> ultimas_reposiciones d2 (inv_producto_id item)
               = ultimas_reposiciones d1 (inv_producto_id item)
           \<and> f2 < inv_fecha_actualizacion item1 + td_days 20
           \<longrightarrow> verificar_reposicion_inventario pop2 dias2 d2 item2 f2 = (False, item2, d2))"
    using 1 2 3 by blast
qed


text \<open>
  A row with 5 units is checked on 2024-03-01 with a 3-day delay: it is restocked on
  2024-03-04. On 2024-03-20, 16 days later, the product is down to 3 units, below the
  threshold: with no restock on record the check would restock it, and with the record
  of 2024-03-04 it does nothing.
\<close>

theorem reposicion_respeta_periodo_minimo_witness:
  "fst (verificar_reposicion_inventario (\<lambda>i. 5) 3 db_bajo inventario_bajo
          (mk_datetime 2024 3 1 12 0 0))
   \<and> cantidad_disponible inventario_bajo < 12
   \<and> inv_fecha_actualizacion (fst (snd (verificar_reposicion_inventario (\<lambda>i. 5) 3 db_bajo
          inventario_bajo (mk_datetime 2024 3 1 12 0 0)))) = mk_datetime 2024 3 4 12 0 0
   \<and> mk_datetime 2024 3 20 8 0 0 < mk_datetime 2024 3 4 12 0 0 + td_days 20
   \<and> cantidad_disponible (inventario_bajo\<lparr>cantidad_mano := 3, cantidad_disponible := 3\<rparr>) < 12
   \<and> fst (verificar_reposicion_inventario (\<lambda>i. 9) 1 db_bajo
          (inventario_bajo\<lparr>cantidad_mano := 3, cantidad_disponible := 3\<rparr>)
          (mk_datetime 2024 3 20 8 0 0))
   \<and> verificar_reposicion_inventario (\<lambda>i. 9) 1
        (snd (snd (verificar_reposicion_inventario (\<lambda>i. 5) 3 db_bajo inventario_bajo
          (mk_datetime 2024 3 1 12 0 0))))
        (inventario_bajo\<lparr>cantidad_mano := 3, cantidad_disponible := 3\<rparr>)
        (mk_datetime 2024 3 20 8 0 0)
      = (False,
         inventario_bajo\<lparr>cantidad_mano := 3, cantidad_disponible := 3\<rparr>,
         snd (snd (verificar_reposicion_inventario (\<lambda>i. 5) 3 db_bajo inventario_bajo
           (mk_datetime 2024 3 1 12 0 0))))"
proof -
  define V where "V = verificar_reposicion_inventario (\<lambda>i. 5) 3 db_bajo inventario_bajo
          (mk_datetime 2024 3 1 12 0 0)"
  define item2 where "item2 = inventario_bajo\<lparr>cantidad_mano := 3, cantidad_disponible := 3\<rparr>"
  have ok: "fst V" unfolding V_def by code_simp
  have fa: "inv_fecha_actualizacion (fst (snd V)) = mk_datetime 2024 3 4 12 0 0"
    unfolding V_def by code_simp
  have lt: "mk_datetime 2024 3 20 8 0 0 < mk_datetime 2024 3 4 12 0 0 + td_days 20"
    by code_simp
  have low: "cantidad_disponible inventario_bajo < 12" by code_simp
  have low2: "cantidad_disponible item2 < 12" unfolding item2_def by simp
  have sin: "fst (verificar_reposicion_inventario (\<lambda>i. 9) 1 db_bajo item2
          (mk_datetime 2024 3 20 8 0 0))"
    unfolding item2_def by code_simp
  have V: "verificar_reposicion_inventario (\<lambda>i. 5) 3 db_bajo inventario_bajo
          (mk_datetime 2024 3 1 12 0 0) = (True, fst (snd V), snd (snd V))"
    using ok unfolding V_def by (simp add: prod_eq_iff)
  have pid: "inv_producto_id item2 = inv_producto_id inventario_bajo"
    by (simp add: item2_def)
  have "verificar_reposicion_inventario (\<lambda>i. 9) 1 (snd (snd V)) item2
          (mk_datetime 2024 3 20 8 0 0) = (False, item2, snd (snd V))"
    using reposicion_respeta_periodo_minimo
      [of "\<lambda>i. 5" 3 db_bajo inventario_bajo "mk_datetime 2024 3 1 12 0 0"
          "fst (snd V)" "snd (snd V)"] V pid fa lt
    by simp
  then show ?thesis using ok fa lt low low2 sin unfolding V_def item2_def by simp
qed


subsection \<open>The inventory invariants\<close>

text \<open>
  C2. If every inventory row of the session satisfies
  \<open>0 \<le> cantidad_disponible \<le> cantidad_mano\<close>, so does every row after the initial
  creation, after the debit of an order detail (with the restock check it ends with),
  after a popularity-driven restock, after the restock of a cancelled detail (for a
  quantity that is not negative, as the quantities of details are) and after a whole
  run of \<^verbatim>\<open>create_detalles_for_pedido\<close> on carts with non-negative quantities; the rows
  created initially satisfy it; and \<^verbatim>\<open>actualizar_inventario_por_pedido\<close> refuses a
  debit larger than the available quantity, returning \<^verbatim>\<open>False\<close> with the row and the
  session unchanged.
\<close>

theorem inventario_acotado_tras_cada_operacion:
  "(inventarios_acotados d \<longrightarrow>
       inventarios_acotados (snd (create_inventario_inicial rc rf d prods))
     \<and> inventarios_acotados (snd (snd (actualizar_inventario_por_pedido pop dias d det f)))
     \<and> (inventario_acotado item \<longrightarrow>
          (case verificar_reposicion_inventario pop dias d item f of
             (ok, item', d') \<Rightarrow> inventario_acotado item' \<and> inventarios_acotados d'))
     \<and> (0 \<le> q \<longrightarrow>
          inventarios_acotados (snd (snd (reponer_stock_tras_cancelacion d i q f))))
     \<and> ((\<forall>x \<in> set (detalles d). 0 \<le> cantidad x) \<and> (\<forall>c \<in> set carritos. 0 \<le> car_cantidad c) \<longrightarrow>
          inventarios_acotados (snd (snd (create_detalles_for_pedido s d p carritos f)))))
   \<and> (\<forall>item \<in> set (fst (create_inventario_inicial rc rf d prods)). inventario_acotado item)
   \<and> (\<forall>it. get_inventario d (det_producto_id det) = Some it
            \<and> cantidad_disponible it < cantidad det \<longrightarrow>
          actualizar_inventario_por_pedido pop dias d det f = (False, Some it, d))"
proof -
  have a: "\<forall>item \<in> set (fst (create_inventario_inicial rc rf d prods)). inventario_acotado item"
    unfolding create_inventario_inicial_efecto(2)
    using inventarios_iniciales_cantidades[of _ rc rf 0 prods]
    by (auto simp: inventario_acotado_def)
  have b: "inventario_acotado item \<Longrightarrow> inventarios_acotados d \<Longrightarrow>
      (case verificar_reposicion_inventario pop dias d item f of
             (ok, item', d') \<Rightarrow> inventario_acotado item' \<and> inventarios_acotados d')"
    using verificar_acotado[of pop dias d item f]
    by (cases "verificar_reposicion_inventario pop dias d item f") auto
  show ?thesis
    by (simp add: a b create_inventario_inicial_acotado actualizar_acotado reponer_acotado
        create_detalles_for_pedido_acotado actualizar_stock_insuficiente)
qed

text \<open>
  On the example session: a detail asking for 30 of the 24 units is refused, and the
  bound holds after each of the operations.
\<close>

theorem inventario_acotado_tras_cada_operacion_witness:
  "inventarios_acotados db_ejemplo \<and> inventario_acotado inventario_ejemplo \<and> (0::int) \<le> 2
   \<and> detalles db_ejemplo = [] \<and> 0 \<le> car_cantidad carrito_ejemplo
   \<and> get_inventario db_ejemplo (det_producto_id (detalle_ejemplo\<lparr>cantidad := 30\<rparr>))
       = Some inventario_ejemplo
   \<and> cantidad_disponible inventario_ejemplo < cantidad (detalle_ejemplo\<lparr>cantidad := 30\<rparr>)
   \<and> actualizar_inventario_por_pedido (\<lambda>i. 5) 3 db_ejemplo (detalle_ejemplo\<lparr>cantidad := 30\<rparr>)
        (mk_datetime 2024 3 1 12 0 0) = (False, Some inventario_ejemplo, db_ejemplo)
   \<and> inventarios_acotados (snd (create_inventario_inicial (\<lambda>k. 0) (\<lambda>k. 0) db_ejemplo
         [producto_ejemplo\<lparr>prod_id := 2\<rparr>]))
   \<and> inventarios_acotados (snd (snd (actualizar_inventario_por_pedido (\<lambda>i. 5) 3 db_ejemplo
         (detalle_ejemplo\<lparr>cantidad := 30\<rparr>) (mk_datetime 2024 3 1 12 0 0))))
   \<and> inventarios_acotados (snd (snd (verificar_reposicion_inventario (\<lambda>i. 5) 3 db_ejemplo
         inventario_ejemplo (mk_datetime 2024 3 1 12 0 0))))
   \<and> inventarios_acotados (snd (snd (reponer_stock_tras_cancelacion db_ejemplo 1 2
         (mk_datetime 2024 3 1 12 10 0))))
   \<and> inventarios_acotados (snd (snd (create_detalles_for_pedido sorteo_cancelado db_ejemplo
         pedido_ejemplo [carrito_ejemplo] (mk_datetime 2024 3 1 12 0 0))))"
proof -
  have h: "inventarios_acotados db_ejemplo" "inventario_acotado inventario_ejemplo"
    "\<forall>x \<in> set (detalles db_ejemplo). 0 \<le> cantidad x"
    "\<forall>c \<in> set [carrito_ejemplo]. 0 \<le> car_cantidad c"
    "get_inventario db_ejemplo (det_producto_id (detalle_ejemplo\<lparr>cantidad := 30\<rparr>))
       = Some inventario_ejemplo"
    "cantidad_disponible inventario_ejemplo < cantidad (detalle_ejemplo\<lparr>cantidad := 30\<rparr>)"
    "detalles db_ejemplo = []" "0 \<le> car_cantidad carrito_ejemplo"
    by (simp_all add: inventarios_acotados_def inventario_acotado_def db_ejemplo_def
        inventario_ejemplo_def carrito_ejemplo_def detalle_ejemplo_def get_inventario_def)
  show ?thesis
    using h inventario_acotado_tras_cada_operacion
      [of db_ejemplo "\<lambda>k. 0" "\<lambda>k. 0" "[producto_ejemplo\<lparr>prod_id := 2\<rparr>]" "\<lambda>i. 5" 3
          "detalle_ejemplo\<lparr>cantidad := 30\<rparr>" "mk_datetime 2024 3 1 12 0 0"
          inventario_ejemplo 2 1 "[carrito_ejemplo]" sorteo_cancelado pedido_ejemplo]
      inventario_acotado_tras_cada_operacion
      [of db_ejemplo "\<lambda>k. 0" "\<lambda>k. 0" "[producto_ejemplo\<lparr>prod_id := 2\<rparr>]" "\<lambda>i. 5" 3
          "detalle_ejemplo\<lparr>cantidad := 30\<rparr>" "mk_datetime 2024 3 1 12 10 0"
          inventario_ejemplo 2 1 "[carrito_ejemplo]" sorteo_cancelado pedido_ejemplo]
    by (auto split: prod.splits)
qed


text \<open>
  C10. Initial creation sets both quantities of a new row to 24, and if available and
  on-hand stock are equal on every row of the session they are equal on every row
  after the initial creation, after a debit, after a popularity-driven restock, after
  the restock of a cancelled detail, after the cancellation of an order and after a
  whole run of \<^verbatim>\<open>create_detalles_for_pedido\<close>.
\<close>

theorem inventario_disponible_igual_a_mano:
  "(\<forall>item \<in> set (fst (create_inventario_inicial rc rf d prods)).
       cantidad_disponible item = 24 \<and> cantidad_mano item = 24)
   \<and> (inventarios_igualados d \<longrightarrow>
         inventarios_igualados (snd (create_inventario_inicial rc rf d prods))
       \<and> inventarios_igualados (snd (snd (actualizar_inventario_por_pedido pop dias d det f)))
       \<and> (inventario_igualado item \<longrightarrow>
            (case verificar_reposicion_inventario pop dias d item f of
               (ok, item', d') \<Rightarrow> inventario_igualado item' \<and> inventarios_igualados d'))
       \<and> inventarios_igualados (snd (snd (reponer_stock_tras_cancelacion d i q f)))
       \<and> inventarios_igualados (snd (snd (update_pedido_a_cancelado d p f)))
       \<and> inventarios_igualados (snd (snd (create_detalles_for_pedido s d p carritos f))))"
proof -
  have a: "\<forall>item \<in> set (fst (create_inventario_inicial rc rf d prods)).
       cantidad_disponible item = 24 \<and> cantidad_mano item = 24"
    unfolding create_inventario_inicial_efecto(2)
    using inventarios_iniciales_cantidades[of _ rc rf 0 prods] by auto
  have b: "inventario_igualado item \<Longrightarrow> inventarios_igualados d \<Longrightarrow>
      (case verificar_reposicion_inventario pop dias d item f of
             (ok, item', d') \<Rightarrow> inventario_igualado item' \<and> inventarios_igualados d')"
    using verificar_igualado[of pop dias d item f]
    by (cases "verificar_reposicion_inventario pop dias d item f") auto
  show ?thesis
    by (simp add: a b create_inventario_inicial_igualado actualizar_igualado reponer_igualado
        update_pedido_a_cancelado_igualado create_detalles_for_pedido_igualado)
qed

text \<open>
  On the example session, whose only row holds 24 and 24.
\<close>

theorem inventario_disponible_igual_a_mano_witness:
  "inventarios_igualados db_ejemplo \<and> inventario_igualado inventario_ejemplo
   \<and> fst (create_inventario_inicial (\<lambda>k. 0) (\<lambda>k. 0) db_ejemplo [producto_ejemplo\<lparr>prod_id := 2\<rparr>]) \<noteq> []
   \<and> map cantidad_disponible (fst (create_inventario_inicial (\<lambda>k. 0) (\<lambda>k. 0) db_ejemplo
          [producto_ejemplo\<lparr>prod_id := 2\<rparr>])) = [24]
   \<and> map cantidad_mano (fst (create_inventario_inicial (\<lambda>k. 0) (\<lambda>k. 0) db_ejemplo
          [producto_ejemplo\<lparr>prod_id := 2\<rparr>])) = [24]
   \<and> inventarios_igualados (snd (create_inventario_inicial (\<lambda>k. 0) (\<lambda>k. 0) db_ejemplo
         [producto_ejemplo\<lparr>prod_id := 2\<rparr>]))
   \<and> inventarios_igualados (snd (snd (actualizar_inventario_por_pedido (\<lambda>i. 5) 3 db_ejemplo
         detalle_ejemplo (mk_datetime 2024 3 1 12 0 0))))
   \<and> inventarios_igualados (snd (snd (verificar_reposicion_inventario (\<lambda>i. 5) 3 db_ejemplo
         inventario_ejemplo (mk_datetime 2024 3 1 12 0 0))))
   \<and> inventarios_igualados (snd (snd (reponer_stock_tras_cancelacion db_ejemplo 1 2
         (mk_datetime 2024 3 1 12 0 0))))
   \<and> inventarios_igualados (snd (snd (create_detalles_for_pedido sorteo_entregado db_ejemplo
         pedido_ejemplo [carrito_ejemplo] (mk_datetime 2024 3 1 12 0 0))))"
proof -
  have h: "inventarios_igualados db_ejemplo" "inventario_igualado inventario_ejemplo"
    by (simp_all add: inventarios_igualados_def inventario_igualado_def db_ejemplo_def
        inventario_ejemplo_def)
  have n: "\<exists>x. fst (create_inventario_inicial (\<lambda>k. 0) (\<lambda>k. 0) db_ejemplo
      [producto_ejemplo\<lparr>prod_id := 2\<rparr>]) = [x]"
    by (simp add: create_inventario_inicial_efecto(2))
  show ?thesis
    using h n inventario_disponible_igual_a_mano
      [of "\<lambda>k. 0" "\<lambda>k. 0" db_ejemplo "[producto_ejemplo\<lparr>prod_id := 2\<rparr>]" "\<lambda>i. 5" 3
          detalle_ejemplo "mk_datetime 2024 3 1 12 0 0"
          inventario_ejemplo 1 2 pedido_ejemplo sorteo_entregado "[carrito_ejemplo]"]
    by (auto split: prod.splits)
qed

subsection \<open>Cancellation and stock\<close>

text \<open>
  C1. The example order is cancelled 10 minutes after its creation. Its detail holds 2
  units of product 1, whose inventory held 24 and 24 before the order. The cancellation
  credits the 2 units through \<^verbatim>\<open>reponer_stock_tras_cancelacion\<close>, and the debit loop,
  which runs after the simulated lifecycle, skips a cancelled order: the inventory ends
  at 26 and 26, not at its level before the order.
\<close>

theorem cancelacion_repone_stock_no_descontado:
  "(case create_detalles_for_pedido sorteo_cancelado db_ejemplo pedido_ejemplo [carrito_ejemplo]
          (mk_datetime 2024 3 1 12 0 0) of
      (costo, p, d) \<Rightarrow>
        estado_pedido p = Cancelado
        \<and> ped_fecha_actualizacion p = mk_datetime 2024 3 1 12 10 0
        \<and> map cantidad (pedido_detalles d p) = [2]
        \<and> map cantidad_disponible (inventarios d) = [26]
        \<and> map cantidad_mano (inventarios d) = [26])
   \<and> map cantidad_disponible (inventarios db_ejemplo) = [24]
   \<and> map cantidad_mano (inventarios db_ejemplo) = [24]"
  by code_simp

subsection \<open>Random dates\<close>

lemma randint_range: "a \<le> b \<Longrightarrow> a \<le> randint rnd a b \<and> randint rnd a b \<le> b"
proof -
  assume "a \<le> b"
  then have p: "0 < b - a + 1" by simp
  have "0 \<le> int rnd mod (b - a + 1)" using p by simp
  moreover have "int rnd mod (b - a + 1) < b - a + 1" using p by (rule pos_mod_bound)
  ultimately show ?thesis by (simp add: randint_def)
qed

lemma random_datetime_in_range_inverted:
  assumes "max_date \<le> min_date"
  shows "\<exists>k. 1 \<le> k \<and> k \<le> 300 \<and> random_datetime_in_range rnd min_date max_date = min_date + td_seconds k"
proof (intro exI[of _ "randint rnd 1 300"] conjI)
  show "1 \<le> randint rnd 1 300" "randint rnd 1 300 \<le> 300"
    using randint_range[of 1 300 rnd] by simp_all
  show "random_datetime_in_range rnd min_date max_date = min_date + td_seconds (randint rnd 1 300)"
    using assms by (simp add: random_datetime_in_range_def)
qed


lemma random_datetime_in_range_within:
  assumes "min_date < max_date"
  shows "min_date \<le> random_datetime_in_range rnd min_date max_date
       \<and> random_datetime_in_range rnd min_date max_date \<le> max_date"
proof -
  define t where "t = (max_date - min_date) div 1000000"
  have t0: "0 \<le> t" using assms by (simp add: t_def)
  have r: "0 \<le> randint rnd 0 t" "randint rnd 0 t \<le> t" using randint_range[OF t0] by simp_all
  have "max_date - min_date = t * 1000000 + (max_date - min_date) mod 1000000"
    unfolding t_def by simp
  moreover have "0 \<le> (max_date - min_date) mod 1000000" by simp
  ultimately have "t * 1000000 \<le> max_date - min_date" by linarith
  moreover have "randint rnd 0 t * 1000000 \<le> t * 1000000" using r(2) by simp
  ultimately have up: "randint rnd 0 t * 1000000 \<le> max_date - min_date" by linarith
  have eq: "random_datetime_in_range rnd min_date max_date = min_date + randint rnd 0 t * 1000000"
    using assms t0 by (simp add: random_datetime_in_range_def Let_def td_seconds_def t_def)
  show ?thesis unfolding eq using up r(1) by simp
qed

lemma py_int_total_seconds:
  assumes "0 \<le> td" "td < td_seconds (2 ^ 33)"
  shows "py_int (total_seconds td) = td div 1000000"
proof -
  define x :: rat where "x = of_int td / 1000000"
  define m where "m = td div 1000000"
  have td: "td = m * 1000000 + td mod 1000000" unfolding m_def by simp
  have md: "0 \<le> td mod 1000000" "td mod 1000000 < 1000000" by simp_all
  have m0: "0 \<le> m" using assms(1) by (simp add: m_def)
  have m33: "m < 2 ^ 33" using assms(2) td md(1) unfolding td_seconds_def by linarith
  have "of_int td = (of_int m * 1000000 + of_int (td mod 1000000) :: rat)"
    using td by (metis of_int_add of_int_mult of_int_numeral)
  then have xe: "x = of_int m + of_int (td mod 1000000) / 1000000"
    by (simp add: x_def field_simps)
  have "(0::rat) \<le> of_int (td mod 1000000)" using md(1) by simp
  then have lo: "of_int m \<le> x" unfolding xe by simp
  have "(of_int (td mod 1000000) :: rat) \<le> 999999" using md(2) by (simp add: of_int_le_iff[symmetric] del: of_int_le_iff)
  then have hi: "x \<le> of_int m + 999999 / 1000000" unfolding xe by simp
  have x0: "0 \<le> x" using lo m0 by (simp add: order_trans[of 0 "of_int m" x])
  have "(of_int m :: rat) \<le> 2 ^ 33 - 1"
    using m33 by (simp add: of_int_le_iff[symmetric] del: of_int_le_iff)
  then have xc: "x \<le> 2 ^ 33" using hi by linarith
  have "\<bar>fl x - x\<bar> \<le> 2 ^ 33 / 2 ^ 53" by (rule fl_error_small[OF x0 xc]) simp
  then have "fl x \<le> x + 2 ^ 33 / 2 ^ 53" by linarith
  then have up: "fl x < of_int m + 1" using hi by simp
  have "m \<le> 2 ^ 53" using m33 by simp
  then have "fl (of_int m) = of_int m" using m0 by (intro fl_of_int)
  moreover have "fl (of_int m) \<le> fl x" using lo by (rule fl_mono)
  ultimately have low: "of_int m \<le> fl x" by simp
  have "\<lfloor>fl x\<rfloor> = m" using low up by (intro floor_unique) simp_all
  moreover have "0 \<le> fl x" using x0 by (rule fl_nonneg)
  ultimately show ?thesis by (simp add: py_int_def total_seconds_def x_def m_def)
qed

lemma datetime_add_en_rango:
  assumes "datetime_min \<le> wall d + td" "wall d + td \<le> datetime_max"
  shows "datetime_add d td = Inr (con_wall d (wall d + td))"
  using assms by (simp add: datetime_add_def Let_def)

lemma wall_con_wall [simp]: "wall (con_wall d w) = w"
  by (cases d) simp_all


lemma datetime_sub_positive:
  assumes "datetime_ge min_date max_date = Inr False" "datetime_sub max_date min_date = Inr d"
  shows "0 < d"
  using assms by (cases min_date; cases max_date) auto


lemma get_random_datetime_in_range_invertido:
  assumes "datetime_ge min_date max_date = Inr True"
    and "datetime_min \<le> wall min_date"
    and "wall min_date + td_seconds 300 \<le> datetime_max"
  shows "get_random_datetime_in_range rnd u min_date (Some max_date)
           = Inr (con_wall min_date (wall min_date + td_seconds (randint rnd 1 300)))"
proof -
  have r: "1 \<le> randint rnd 1 300" "randint rnd 1 300 \<le> 300"
    using randint_range[of 1 300 rnd] by simp_all
  have "datetime_add min_date (td_seconds (randint rnd 1 300))
          = Inr (con_wall min_date (wall min_date + td_seconds (randint rnd 1 300)))"
    using r assms(2,3) by (intro datetime_add_en_rango) (simp_all add: td_seconds_def)
  then show ?thesis using assms(1) by (simp add: get_random_datetime_in_range_def)
qed

lemma get_random_datetime_in_range_ordenado:
  assumes "datetime_ge min_date max_date = Inr False"
    and "datetime_sub max_date min_date = Inr d"
    and "d < td_seconds (2 ^ 33)"
    and "datetime_min \<le> wall min_date"
    and "wall min_date + d \<le> datetime_max"
  shows "get_random_datetime_in_range rnd u min_date (Some max_date)
           = Inr (con_wall min_date
                    (wall min_date + td_seconds (randint rnd 0 (d div 1000000))))"
    and "td_seconds (randint rnd 0 (d div 1000000)) \<le> d"
    and "0 \<le> randint rnd 0 (d div 1000000)"
proof -
  define t where "t = d div 1000000"
  have d0: "0 < d" by (rule datetime_sub_positive[OF assms(1,2)])
  then have t0: "0 \<le> t" by (simp add: t_def)
  have ts: "py_int (total_seconds d) = t"
    unfolding t_def using d0 assms(3) by (intro py_int_total_seconds) simp_all
  have r: "0 \<le> randint rnd 0 t" "randint rnd 0 t \<le> t" using randint_range[OF t0] by simp_all
  have "d = t * 1000000 + d mod 1000000" unfolding t_def by simp
  moreover have "0 \<le> d mod 1000000" by simp
  ultimately have "t * 1000000 \<le> d" by linarith
  moreover have "randint rnd 0 t * 1000000 \<le> t * 1000000" using r(2) by simp
  ultimately have up: "td_seconds (randint rnd 0 t) \<le> d" unfolding td_seconds_def by linarith
  have lo: "0 \<le> td_seconds (randint rnd 0 t)" using r(1) by (simp add: td_seconds_def)
  have add: "datetime_add min_date (td_seconds (randint rnd 0 t))
          = Inr (con_wall min_date (wall min_date + td_seconds (randint rnd 0 t)))"
    using up lo assms(4,5) by (intro datetime_add_en_rango) simp_all
  show "get_random_datetime_in_range rnd u min_date (Some max_date)
           = Inr (con_wall min_date
                    (wall min_date + td_seconds (randint rnd 0 (d div 1000000))))"
    using assms(1,2) t0 add ts by (simp add: get_random_datetime_in_range_def Let_def t_def)
  show "td_seconds (randint rnd 0 (d div 1000000)) \<le> d" using up by (simp add: t_def)
  show "0 \<le> randint rnd 0 (d div 1000000)" using r(1) by (simp add: t_def)
qed

lemma get_random_datetime_in_range_naive:
  assumes "datetime_min \<le> a" "b \<le> datetime_max"
    and "b \<le> a \<Longrightarrow> a + td_seconds 300 \<le> datetime_max"
    and "a < b \<Longrightarrow> b - a < td_seconds (2 ^ 33)"
  shows "get_random_datetime_in_range rnd u (Naive a) (Some (Naive b))
           = Inr (Naive (random_datetime_in_range rnd a b))"
proof (cases "b \<le> a")
  case True
  then have "get_random_datetime_in_range rnd u (Naive a) (Some (Naive b))
           = Inr (con_wall (Naive a) (wall (Naive a) + td_seconds (randint rnd 1 300)))"
    using assms(1,3) by (intro get_random_datetime_in_range_invertido) simp_all
  then show ?thesis using True by (simp add: random_datetime_in_range_def)
next
  case False
  then have lt: "a < b" by simp
  have "get_random_datetime_in_range rnd u (Naive a) (Some (Naive b))
           = Inr (con_wall (Naive a)
                    (wall (Naive a) + td_seconds (randint rnd 0 ((b - a) div 1000000))))"
    using lt assms(1,2) assms(4)[OF lt]
    by (intro get_random_datetime_in_range_ordenado(1)) simp_all
  moreover have "0 \<le> (b - a) div 1000000" using lt by simp
  ultimately show ?thesis using False by (simp add: random_datetime_in_range_def Let_def)
qed




subsection \<open>Sequential dates\<close>



lemma timedelta_of_seconds_0 [simp]: "timedelta_of_seconds 0 = 0"
  using round_half_even_of_int[of 0] by (simp add: timedelta_of_seconds_def py_int_def)




lemma datetime_gt_refl [simp]: "datetime_gt d d = Inr False"
  by (cases d) simp_all









subsection \<open>Orders from cart sessions\<close>

lemma pasos_fecha_registro:
  "ped_fecha_registro (c_pedido (paso_cancelacion s c)) = ped_fecha_registro (c_pedido c)"
  "ped_fecha_registro (c_pedido (paso_procesando s c)) = ped_fecha_registro (c_pedido c)"
  "ped_fecha_registro (c_pedido (paso_envio s c)) = ped_fecha_registro (c_pedido c)"
  "ped_fecha_registro (c_pedido (paso_entrega s c)) = ped_fecha_registro (c_pedido c)"
  "ped_fecha_registro (c_pedido (paso_reembolso s c)) = ped_fecha_registro (c_pedido c)"
  by (auto simp: paso_cancelacion_def paso_procesando_def paso_envio_def paso_entrega_def
      paso_reembolso_def aplicar_reembolso_def Let_def update_pedido_a_cancelado_def
      update_pedido_a_procesando_def update_pedido_a_enviado_def update_pedido_a_entregado_def
      update_pedido_a_reembolsado_def split: prod.splits if_splits)

lemma pasos_usuario:
  "ped_usuario_id (c_pedido (paso_cancelacion s c)) = ped_usuario_id (c_pedido c)"
  "ped_usuario_id (c_pedido (paso_procesando s c)) = ped_usuario_id (c_pedido c)"
  "ped_usuario_id (c_pedido (paso_envio s c)) = ped_usuario_id (c_pedido c)"
  "ped_usuario_id (c_pedido (paso_entrega s c)) = ped_usuario_id (c_pedido c)"
  "ped_usuario_id (c_pedido (paso_reembolso s c)) = ped_usuario_id (c_pedido c)"
  by (auto simp: paso_cancelacion_def paso_procesando_def paso_envio_def paso_entrega_def
      paso_reembolso_def aplicar_reembolso_def Let_def update_pedido_a_cancelado_def
      update_pedido_a_procesando_def update_pedido_a_enviado_def update_pedido_a_entregado_def
      update_pedido_a_reembolsado_def split: prod.splits if_splits)

lemma create_detalles_for_pedido_fecha_registro:
  "ped_fecha_registro (fst (snd (create_detalles_for_pedido s d p carritos f))) = ped_fecha_registro p"
  "ped_usuario_id (fst (snd (create_detalles_for_pedido s d p carritos f))) = ped_usuario_id p"
  by (simp_all add: create_detalles_for_pedido_def Let_def pasos_fecha_registro pasos_usuario)

lemma random_choice_mem: "xs \<noteq> [] \<Longrightarrow> random_choice rnd xs \<in> set xs"
  by (simp add: random_choice_def)

lemma elegir_descuento_vigente:
  assumes "elegir_descuento s t descs u f = Some dsc"
  shows "dsc \<in> set descs \<and> fecha_inicio dsc \<le> f \<and> f \<le> fecha_fin dsc"
proof -
  define validos where "validos = filter (\<lambda>d. fecha_inicio d \<le> f \<and> f \<le> fecha_fin d) descs"
  define no_usados where "no_usados = filter (\<lambda>d. find (\<lambda>h. hist_usuario_id h = u
                                            \<and> hist_descuento_id h = desc_id d)
                                      (historial_descuentos t) = None) validos"
  have "no_usados \<noteq> [] \<and> dsc = random_choice (rnd_descuento s) no_usados"
    using assms unfolding elegir_descuento_def Let_def validos_def[symmetric] no_usados_def[symmetric]
    by (auto split: if_splits)
  then have "dsc \<in> set no_usados" using random_choice_mem by blast
  then have "dsc \<in> set validos" by (simp add: no_usados_def)
  then show ?thesis by (simp add: validos_def)
qed


lemma create_detalles_for_pedido_fecha_registro':
  "create_detalles_for_pedido s d p carritos f = (c, p', d') \<Longrightarrow>
     ped_fecha_registro p' = ped_fecha_registro p \<and> ped_usuario_id p' = ped_usuario_id p"
  using create_detalles_for_pedido_fecha_registro[of s d p carritos f] by simp

lemma create_localizacion_historial:
  "create_localizacion_for_user rnd t usr m fm = (r, t1) \<Longrightarrow>
     historial_descuentos t1 = historial_descuentos t"
  by (auto simp: create_localizacion_for_user_def Let_def split: if_splits)

lemma crear_pedido_de_sesion_no_abandonada:
  "fst (crear_pedido_de_sesion descs s t grupo) \<noteq> Abandonada"
  by (simp add: crear_pedido_de_sesion_def Let_def
      split: list.splits option.splits prod.splits)

lemma crear_pedido_de_sesion_creado:
  assumes "crear_pedido_de_sesion descs s t grupo = (Creado p dscopt, t')"
  shows "\<exists>t1 u. historial_descuentos t1 = historial_descuentos t
           \<and> dscopt = elegir_descuento s t1 descs u (ped_fecha_registro p)
           \<and> ped_usuario_id p = u
           \<and> historial_descuentos t' = historial_descuentos t
                @ (case dscopt of None \<Rightarrow> []
                   | Some dsc \<Rightarrow> [\<lparr>hist_usuario_id = u, hist_descuento_id = desc_id dsc,
                                    hist_fecha_registro = ped_fecha_registro p\<rparr>])"
  using assms unfolding crear_pedido_de_sesion_def Let_def
  by (auto split: list.splits option.splits prod.splits if_splits
      dest!: create_detalles_for_pedido_fecha_registro' create_localizacion_historial)


lemma create_pedidos_bucle_paso:
  assumes "create_pedidos_bucle descs sorteos n num k creados t (g # rest) = (ps, t', traza)"
  shows "(num - int (length creados) \<le> 0 \<and> ps = creados \<and> t' = t \<and> traza = [])
       \<or> (0 < num - int (length creados)
            \<and> (0 < int n - int (Suc k)
                 \<and> fl (of_int (num - int (length creados)) / of_int (int n - int (Suc k)))
                     < random_random (u_conversion (sorteos k)))
            \<and> (\<exists>tr. create_pedidos_bucle descs sorteos n num (Suc k) creados t rest = (ps, t', tr)
                      \<and> traza = Abandonada # tr))
       \<or> (0 < num - int (length creados)
            \<and> (\<exists>p dsc t1 tr. crear_pedido_de_sesion descs (sorteos k) t g = (Creado p dsc, t1)
                  \<and> create_pedidos_bucle descs sorteos n num (Suc k) (creados @ [p]) t1 rest
                      = (ps, t', tr)
                  \<and> traza = Creado p dsc # tr))
       \<or> (0 < num - int (length creados)
            \<and> (\<exists>t1 tr. crear_pedido_de_sesion descs (sorteos k) t g = (Saltada, t1)
                  \<and> create_pedidos_bucle descs sorteos n num (Suc k) creados t1 rest = (ps, t', tr)
                  \<and> traza = Saltada # tr))"
proof (cases "num - int (length creados) \<le> 0")
  case True
  then show ?thesis using assms by (simp add: Let_def)
next
  case False
  define prob :: rat where "prob = (if 0 < int n - int (Suc k)
      then fl (of_int (num - int (length creados)) / of_int (int n - int (Suc k))) else 1)"
  have eq: "create_pedidos_bucle descs sorteos n num k creados t (g # rest) =
     (if num - int (length creados) \<le> 0 then (creados, t, [])
      else if random_random (u_conversion (sorteos k)) > prob then
                 (case create_pedidos_bucle descs sorteos n num (Suc k) creados t rest of
                    (ps, t', traza) \<Rightarrow> (ps, t', Abandonada # traza))
               else
                 (case crear_pedido_de_sesion descs (sorteos k) t g of
                    (Creado p dsc, t1) \<Rightarrow>
                      (case create_pedidos_bucle descs sorteos n num (Suc k) (creados @ [p]) t1 rest of
                         (ps, t', traza) \<Rightarrow> (ps, t', Creado p dsc # traza))
                  | (r, t1) \<Rightarrow>
                      (case create_pedidos_bucle descs sorteos n num (Suc k) creados t1 rest of
                         (ps, t', traza) \<Rightarrow> (ps, t', r # traza))))"
    unfolding prob_def by (simp only: create_pedidos_bucle.simps Let_def)
  have r1: "random_random u < 1" for u :: rat
    by (simp add: random_random_def) linarith
  show ?thesis
  proof (cases "prob < random_random (u_conversion (sorteos k))")
    case True
    then have c: "0 < int n - int (Suc k)
                 \<and> fl (of_int (num - int (length creados)) / of_int (int n - int (Suc k)))
                     < random_random (u_conversion (sorteos k))"
      using r1[of "u_conversion (sorteos k)"] by (auto simp: prob_def split: if_splits)
    obtain ps0 t0 tr0 where b: "create_pedidos_bucle descs sorteos n num (Suc k) creados t rest = (ps0, t0, tr0)"
      by (cases "create_pedidos_bucle descs sorteos n num (Suc k) creados t rest")
    have "create_pedidos_bucle descs sorteos n num k creados t (g # rest) = (ps0, t0, Abandonada # tr0)"
      using False True b by (simp add: eq del: create_pedidos_bucle.simps)
    then show ?thesis using assms False c b
      by (simp del: create_pedidos_bucle.simps)
  next
    case np: False
    obtain r t1 where cr: "crear_pedido_de_sesion descs (sorteos k) t g = (r, t1)"
      by (cases "crear_pedido_de_sesion descs (sorteos k) t g")
    have rne: "r \<noteq> Abandonada"
      using crear_pedido_de_sesion_no_abandonada[of descs "sorteos k" t g] cr by simp
    show ?thesis
    proof (cases r)
      case Abandonada
      then show ?thesis using rne by simp
    next
      case Saltada
      obtain ps0 t0 tr0 where b: "create_pedidos_bucle descs sorteos n num (Suc k) creados t1 rest = (ps0, t0, tr0)"
        by (cases "create_pedidos_bucle descs sorteos n num (Suc k) creados t1 rest")
      have "create_pedidos_bucle descs sorteos n num k creados t (g # rest) = (ps0, t0, Saltada # tr0)"
        using False np b cr Saltada by (simp add: eq del: create_pedidos_bucle.simps)
      then show ?thesis using assms False cr Saltada b
        by (simp del: create_pedidos_bucle.simps)
    next
      case (Creado p dsc)
      obtain ps0 t0 tr0 where b: "create_pedidos_bucle descs sorteos n num (Suc k) (creados @ [p]) t1 rest = (ps0, t0, tr0)"
        by (cases "create_pedidos_bucle descs sorteos n num (Suc k) (creados @ [p]) t1 rest")
      have "create_pedidos_bucle descs sorteos n num k creados t (g # rest) = (ps0, t0, Creado p dsc # tr0)"
        using False np b cr Creado by (simp add: eq del: create_pedidos_bucle.simps)
      then show ?thesis using assms False cr Creado b
        by (simp del: create_pedidos_bucle.simps)
    qed
  qed
qed


lemma crear_pedido_de_sesion_saltada:
  assumes "crear_pedido_de_sesion descs s t grupo = (Saltada, t')"
  shows "historial_descuentos t' = historial_descuentos t"
  using assms unfolding crear_pedido_de_sesion_def Let_def
  by (auto split: list.splits option.splits prod.splits if_splits)

lemma create_pedidos_bucle_traza:
  "create_pedidos_bucle descs sorteos n num k creados t sesiones = (ps, t', traza) \<Longrightarrow>
     ps = creados @ pedidos_de_traza traza
     \<and> (\<exists>extra. historial_descuentos t' = historial_descuentos t @ extra)
     \<and> (\<forall>p dsc. Creado p (Some dsc) \<in> set traza \<longrightarrow>
           dsc \<in> set descs
           \<and> fecha_inicio dsc \<le> ped_fecha_registro p \<and> ped_fecha_registro p \<le> fecha_fin dsc
           \<and> \<lparr>hist_usuario_id = ped_usuario_id p, hist_descuento_id = desc_id dsc,
                hist_fecha_registro = ped_fecha_registro p\<rparr> \<in> set (historial_descuentos t'))"
proof (induction sesiones arbitrary: k creados t ps t' traza)
  case Nil
  then show ?case by simp
next
  case (Cons g rest)
  consider
    (fin) "ps = creados" "t' = t" "traza = []"
  | (aband) tr where "create_pedidos_bucle descs sorteos n num (Suc k) creados t rest = (ps, t', tr)"
      "traza = Abandonada # tr"
  | (creado) p dsc t1 tr where "crear_pedido_de_sesion descs (sorteos k) t g = (Creado p dsc, t1)"
      "create_pedidos_bucle descs sorteos n num (Suc k) (creados @ [p]) t1 rest = (ps, t', tr)"
      "traza = Creado p dsc # tr"
  | (saltada) t1 tr where "crear_pedido_de_sesion descs (sorteos k) t g = (Saltada, t1)"
      "create_pedidos_bucle descs sorteos n num (Suc k) creados t1 rest = (ps, t', tr)"
      "traza = Saltada # tr"
    using create_pedidos_bucle_paso[OF Cons.prems] by blast
  then show ?case
  proof cases
    case fin
    then show ?thesis by simp
  next
    case aband
    show ?thesis using Cons.IH[OF aband(1)] aband(2) by simp
  next
    case saltada
    show ?thesis
      using Cons.IH[OF saltada(2)] saltada(3) crear_pedido_de_sesion_saltada[OF saltada(1)]
      by simp
  next
    case creado
    obtain t0 u where c: "historial_descuentos t0 = historial_descuentos t"
      "dsc = elegir_descuento (sorteos k) t0 descs u (ped_fecha_registro p)"
      "ped_usuario_id p = u"
      "historial_descuentos t1 = historial_descuentos t
                @ (case dsc of None \<Rightarrow> []
                   | Some d \<Rightarrow> [\<lparr>hist_usuario_id = u, hist_descuento_id = desc_id d,
                                    hist_fecha_registro = ped_fecha_registro p\<rparr>])"
      using crear_pedido_de_sesion_creado[OF creado(1)] by blast
    note ih = Cons.IH[OF creado(2)]
    obtain extra where e: "historial_descuentos t' = historial_descuentos t1 @ extra"
      using ih by blast
    have 1: "ps = creados @ pedidos_de_traza traza" using ih creado(3) by simp
    have 2: "\<exists>extra. historial_descuentos t' = historial_descuentos t @ extra"
      using e c(4) by simp
    have 3: "d \<in> set descs
           \<and> fecha_inicio d \<le> ped_fecha_registro p \<and> ped_fecha_registro p \<le> fecha_fin d
           \<and> \<lparr>hist_usuario_id = ped_usuario_id p, hist_descuento_id = desc_id d,
                hist_fecha_registro = ped_fecha_registro p\<rparr> \<in> set (historial_descuentos t')"
      if "dsc = Some d" for d
      using that c e elegir_descuento_vigente[of "sorteos k" t0 descs u "ped_fecha_registro p" d]
      by simp
    show ?thesis using 1 2 3 ih creado(3) by auto
  qed
qed

lemma random_random_lt_1: "random_random u < 1"
  by (simp add: random_random_def) linarith

lemma create_pedidos_bucle_cuenta:
  "create_pedidos_bucle descs sorteos n num k creados t sesiones = (ps, t', traza) \<Longrightarrow>
   Saltada \<notin> set traza \<Longrightarrow> int (length creados) \<le> num \<Longrightarrow> k + length sesiones = n \<Longrightarrow>
   num - int (length creados) \<le> int (length sesiones) \<Longrightarrow> int (length ps) = num"
proof (induction sesiones arbitrary: k creados t ps t' traza)
  case Nil
  then show ?case by simp
next
  case (Cons g rest)
  consider
    (fin) "num - int (length creados) \<le> 0" "ps = creados"
  | (aband) tr where "0 < num - int (length creados)" "0 < int n - int (Suc k)"
      "fl (of_int (num - int (length creados)) / of_int (int n - int (Suc k)))
          < random_random (u_conversion (sorteos k))"
      "create_pedidos_bucle descs sorteos n num (Suc k) creados t rest = (ps, t', tr)"
      "traza = Abandonada # tr"
  | (creado) p dsc t1 tr where "0 < num - int (length creados)"
      "create_pedidos_bucle descs sorteos n num (Suc k) (creados @ [p]) t1 rest = (ps, t', tr)"
      "traza = Creado p dsc # tr"
  | (saltada) tr where "traza = Saltada # tr"
    using create_pedidos_bucle_paso[OF Cons.prems(1)] by blast
  then show ?case
  proof cases
    case fin
    then show ?thesis using Cons.prems(3) by simp
  next
    case saltada
    then show ?thesis using Cons.prems(2) by simp
  next
    case creado
    show ?thesis
      using Cons.IH[OF creado(2)] creado(1,3) Cons.prems by simp
  next
    case aband
    have m: "int n - int (Suc k) = int (length rest)" using Cons.prems(4) by simp
    have "fl (of_int (num - int (length creados)) / of_int (int n - int (Suc k))) < 1"
      using aband(3) random_random_lt_1[of "u_conversion (sorteos k)"] by linarith
    then have "of_int (num - int (length creados)) / of_int (int n - int (Suc k)) < (1::rat)"
      by (rule fl_less_1D)
    then have "(of_int (num - int (length creados)) :: rat) < of_int (int n - int (Suc k))"
      using aband(2) by (simp add: pos_divide_less_eq)
    then have "num - int (length creados) < int n - int (Suc k)"
      by (simp only: of_int_less_iff)
    then have "num - int (length creados) \<le> int (length rest)" using m by simp
    then show ?thesis
      using Cons.IH[OF aband(4)] aband(5) Cons.prems by simp
  qed
qed


lemma agregar_carrito_grupos:
  "\<forall>x \<in> set m. snd x \<noteq> [] \<Longrightarrow>
     agregar_carrito c m \<noteq> [] \<and> (\<forall>x \<in> set (agregar_carrito c m). snd x \<noteq> [])"
  by (induction m) (fastforce split: if_splits)+

lemma foldl_agregar_grupos:
  "m \<noteq> [] \<Longrightarrow> \<forall>x \<in> set m. snd x \<noteq> [] \<Longrightarrow>
     foldl (\<lambda>m c. agregar_carrito c m) m cs \<noteq> []
     \<and> (\<forall>x \<in> set (foldl (\<lambda>m c. agregar_carrito c m) m cs). snd x \<noteq> [])"
proof (induction cs arbitrary: m)
  case Nil
  then show ?case by simp
next
  case (Cons c cs)
  show ?case
    using Cons.IH[of "agregar_carrito c m"] agregar_carrito_grupos[OF Cons.prems(2), of c]
    by simp
qed

lemma agrupar_por_usuario_grupos:
  assumes "cs \<noteq> []"
  shows "agrupar_por_usuario cs \<noteq> [] \<and> (\<forall>x \<in> set (agrupar_por_usuario cs). snd x \<noteq> [])"
proof -
  obtain c rest where cs: "cs = c # rest" using assms by (cases cs) auto
  show ?thesis
    unfolding agrupar_por_usuario_def cs
    using foldl_agregar_grupos[of "agregar_carrito c []" rest] by simp
qed

lemma dividir_en_sesiones_no_vacio:
  "g \<noteq> [] \<or> cs \<noteq> [] \<Longrightarrow> dividir_en_sesiones g cs \<noteq> []"
  by (induction cs arbitrary: g) auto

lemma sort_key_no_vacio: "xs \<noteq> [] \<Longrightarrow> sort_key f xs \<noteq> []"
  using length_sort[of f xs] by (metis length_0_conv)

lemma sesiones_compra_no_vacio:
  assumes "carritos \<noteq> []"
  shows "sesiones_compra carritos \<noteq> []"
proof -
  define m where "m = agrupar_por_usuario (sort_key car_fecha_actualizacion carritos)"
  have m: "m \<noteq> []" "\<forall>x \<in> set m. snd x \<noteq> []"
    using agrupar_por_usuario_grupos[OF sort_key_no_vacio[OF assms, of car_fecha_actualizacion]]
    by (simp_all add: m_def)
  then obtain u cs rest where mc: "m = (u, cs) # rest" "cs \<noteq> []"
    by (cases m) auto
  have "dividir_en_sesiones [] (sort_key car_fecha_actualizacion cs) \<noteq> []"
    using dividir_en_sesiones_no_vacio sort_key_no_vacio[OF mc(2)] by blast
  then have "concat (map (\<lambda>(usuario_id, carritos_usuario).
                           dividir_en_sesiones []
                             (sort_key car_fecha_actualizacion carritos_usuario)) m) \<noteq> []"
    using mc(1) by simp
  then show ?thesis
    unfolding sesiones_compra_def Let_def m_def[symmetric]
    by (rule sort_key_no_vacio)
qed

lemma max_py_int_floor: "max 1 (py_int x) = max 1 \<lfloor>x\<rfloor>"
proof (cases "0 \<le> x")
  case True
  then show ?thesis by (simp add: py_int_def)
next
  case False
  then have "\<lceil>x\<rceil> \<le> 0" "\<lfloor>x\<rfloor> \<le> 0" by (simp_all add: ceiling_le_iff floor_le_iff)
  then show ?thesis using False by (simp add: py_int_def)
qed

lemma objetivo_acotado:
  assumes "0 < n" and "n \<le> 2 ^ 53" and "pc \<le> (1::rat)"
  shows "max 1 \<lfloor>fl (fl (of_nat n) * pc)\<rfloor> \<le> int n"
proof -
  have n: "fl (of_nat n) = of_nat n" by (rule fl_of_nat[OF assms(2)])
  have "of_nat n * pc \<le> (of_nat n :: rat)" using assms by (simp add: mult_left_le)
  then have "fl (of_nat n * pc) \<le> fl (of_nat n)" by (rule fl_mono)
  then have "\<lfloor>fl (of_nat n * pc)\<rfloor> \<le> \<lfloor>(of_nat n :: rat)\<rfloor>" unfolding n by (rule floor_mono)
  then show ?thesis using assms(1) unfolding n by simp
qed


text \<open>
  C5. In every run of \<^verbatim>\<open>create_pedidos\<close> the returned orders are those the loop
  created, and whenever an order is created with a discount applied, the discount is
  one of \<^verbatim>\<open>todos_los_descuentos\<close>, the order's \<^verbatim>\<open>fecha_registro\<close> lies between
  the discount's \<^verbatim>\<open>fecha_inicio\<close> and \<^verbatim>\<open>fecha_fin\<close>, ends included, and the
  history row recorded for it carries the user, the discount and that date. So no
  discount is attached to an order dated outside its window.
\<close>

theorem descuento_solo_dentro_de_su_vigencia:
  "create_pedidos sorteos t todos_los_descuentos carritos porcentaje_conversion = (ps, t', traza)
   \<longrightarrow> ps = pedidos_de_traza traza
     \<and> (\<forall>p dsc. Creado p (Some dsc) \<in> set traza \<longrightarrow>
           dsc \<in> set todos_los_descuentos
           \<and> fecha_inicio dsc \<le> ped_fecha_registro p \<and> ped_fecha_registro p \<le> fecha_fin dsc
           \<and> \<lparr>hist_usuario_id = ped_usuario_id p, hist_descuento_id = desc_id dsc,
                hist_fecha_registro = ped_fecha_registro p\<rparr> \<in> set (historial_descuentos t'))"
proof
  assume r: "create_pedidos sorteos t todos_los_descuentos carritos porcentaje_conversion
               = (ps, t', traza)"
  show "ps = pedidos_de_traza traza
     \<and> (\<forall>p dsc. Creado p (Some dsc) \<in> set traza \<longrightarrow>
           dsc \<in> set todos_los_descuentos
           \<and> fecha_inicio dsc \<le> ped_fecha_registro p \<and> ped_fecha_registro p \<le> fecha_fin dsc
           \<and> \<lparr>hist_usuario_id = ped_usuario_id p, hist_descuento_id = desc_id dsc,
                hist_fecha_registro = ped_fecha_registro p\<rparr> \<in> set (historial_descuentos t'))"
  proof (cases "carritos = []")
    case True
    then show ?thesis using r by (simp add: create_pedidos_def)
  next
    case False
    then have "create_pedidos_bucle todos_los_descuentos sorteos (length (sesiones_compra carritos))
               (max 1 (py_int (fl (fl (of_nat (length (sesiones_compra carritos)))
                                     * porcentaje_conversion))))
               0 [] t (sesiones_compra carritos) = (ps, t', traza)"
      using r by (simp add: create_pedidos_def Let_def)
    from create_pedidos_bucle_traza[OF this] show ?thesis by simp
  qed
qed

text \<open>
  The example run: the first session is abandoned, the second becomes an order dated
  2024-03-01 12:22:00 with the March discount, for which a history row is recorded.
\<close>

theorem descuento_solo_dentro_de_su_vigencia_witness:
  "snd (snd (create_pedidos sorteos_ejemplo tienda_ejemplo [descuento_ejemplo] carritos_ejemplo (1 / 2)))
     = [Abandonada,
        Creado \<lparr>ped_id = 1, ped_usuario_id = 2, costo_total = 50000, estado_pedido = Entregado,
                ped_fecha_registro = mk_datetime 2024 3 1 12 22 0,
                ped_fecha_actualizacion = mk_datetime 2024 3 1 12 22 10\<rparr>
               (Some descuento_ejemplo)]
   \<and> fecha_inicio descuento_ejemplo \<le> mk_datetime 2024 3 1 12 22 0
   \<and> mk_datetime 2024 3 1 12 22 0 \<le> fecha_fin descuento_ejemplo
   \<and> \<lparr>hist_usuario_id = 2, hist_descuento_id = 1,
        hist_fecha_registro = mk_datetime 2024 3 1 12 22 0\<rparr>
      \<in> set (historial_descuentos (fst (snd (create_pedidos sorteos_ejemplo tienda_ejemplo
            [descuento_ejemplo] carritos_ejemplo (1 / 2)))))"
proof -
  define R where "R = create_pedidos sorteos_ejemplo tienda_ejemplo [descuento_ejemplo]
                        carritos_ejemplo (1 / 2)"
  have tr: "snd (snd R)
     = [Abandonada,
        Creado \<lparr>ped_id = 1, ped_usuario_id = 2, costo_total = 50000, estado_pedido = Entregado,
                ped_fecha_registro = mk_datetime 2024 3 1 12 22 0,
                ped_fecha_actualizacion = mk_datetime 2024 3 1 12 22 10\<rparr>
               (Some descuento_ejemplo)]"
    unfolding R_def by code_simp
  have id: "desc_id descuento_ejemplo = 1" by (simp add: descuento_ejemplo_def)
  have "create_pedidos sorteos_ejemplo tienda_ejemplo [descuento_ejemplo] carritos_ejemplo (1 / 2)
          = (fst R, fst (snd R), snd (snd R))"
    by (simp add: R_def)
  from descuento_solo_dentro_de_su_vigencia[rule_format, OF this] tr id
  show ?thesis unfolding R_def by simp
qed

text \<open>
  C6, amended. For a non-empty list of carts that form at most \<open>2 ^ 53\<close> purchase
  sessions and a conversion fraction of at most 1, if no session that passed the
  conversion test was skipped (every accepted session produced an order), then,
  whatever the draws, the number of orders created is exactly \<open>max 1 \<lfloor>x\<rfloor>\<close>, where
  \<open>x\<close> is the product of the number of sessions and \<open>porcentaje_conversion\<close> as the
  code computes it, in double precision.
\<close>

theorem create_pedidos_cumple_objetivo:
  assumes "carritos \<noteq> []" and "porcentaje_conversion \<le> 1"
    and "length (sesiones_compra carritos) \<le> 2 ^ 53"
    and "create_pedidos sorteos t todos_los_descuentos carritos porcentaje_conversion
           = (ps, t', traza)"
    and "Saltada \<notin> set traza"
  shows "int (length ps)
           = max 1 \<lfloor>fl (fl (of_nat (length (sesiones_compra carritos))) * porcentaje_conversion)\<rfloor>"
proof -
  define n where "n = length (sesiones_compra carritos)"
  define num where "num = max 1 (py_int (fl (fl (of_nat n) * porcentaje_conversion)))"
  have n0: "0 < n" using sesiones_compra_no_vacio[OF assms(1)] by (simp add: n_def)
  have n53: "n \<le> 2 ^ 53" using assms(3) by (simp add: n_def)
  have numf: "num = max 1 \<lfloor>fl (fl (of_nat n) * porcentaje_conversion)\<rfloor>"
    by (simp add: num_def max_py_int_floor)
  have le: "num \<le> int n" unfolding numf by (rule objetivo_acotado[OF n0 n53 assms(2)])
  have pos: "0 \<le> num" by (simp add: numf)
  have b: "create_pedidos_bucle todos_los_descuentos sorteos n num 0 [] t (sesiones_compra carritos)
             = (ps, t', traza)"
    using assms(1,4) by (simp add: create_pedidos_def Let_def n_def num_def)
  have "int (length ps) = num"
    by (rule create_pedidos_bucle_cuenta[OF b assms(5)]) (use le pos in \<open>simp_all add: n_def\<close>)
  then show ?thesis by (simp add: numf n_def)
qed

text \<open>
  Ten sessions at the fraction \<^verbatim>\<open>0.7\<close>, the double nearest to 7/10: the product
  is the double 7, the target is 7 orders, and 7 orders are created although the first
  session was abandoned.
\<close>

theorem create_pedidos_cumple_objetivo_witness:
  "carritos_diez \<noteq> [] \<and> fl (7 / 10) \<le> 1
   \<and> length (sesiones_compra carritos_diez) = 10
   \<and> Saltada \<notin> set (snd (snd (create_pedidos sorteos_ejemplo tienda_ejemplo [descuento_ejemplo]
                                  carritos_diez (fl (7 / 10)))))
   \<and> max 1 \<lfloor>fl (fl (of_nat 10) * fl (7 / 10))\<rfloor> = 7
   \<and> length (fst (create_pedidos sorteos_ejemplo tienda_ejemplo [descuento_ejemplo]
                     carritos_diez (fl (7 / 10)))) = 7"
proof -
  define R where "R = create_pedidos sorteos_ejemplo tienda_ejemplo [descuento_ejemplo]
                        carritos_diez (fl (7 / 10))"
  have a: "carritos_diez \<noteq> []" by (simp add: carritos_diez_def)
  have pc: "fl (7 / 10) \<le> 1" by code_simp
  have n: "length (sesiones_compra carritos_diez) = 10" by code_simp
  have n53: "length (sesiones_compra carritos_diez) \<le> 2 ^ 53" unfolding n by simp
  have s: "Saltada \<notin> set (snd (snd R))" unfolding R_def by code_simp
  have f: "max 1 \<lfloor>fl (fl (of_nat 10) * fl (7 / 10))\<rfloor> = 7" by code_simp
  have r: "create_pedidos sorteos_ejemplo tienda_ejemplo [descuento_ejemplo] carritos_diez
             (fl (7 / 10)) = (fst R, fst (snd R), snd (snd R))"
    by (simp add: R_def)
  have "int (length (fst R)) = 7"
    using create_pedidos_cumple_objetivo[OF a pc n53 r s] n f by simp
  then show ?thesis using a pc s n f unfolding R_def by simp
qed

text \<open>
  C6 as stated fails in three ways. With no cart at all the function returns at once
  with no order, where the formula gives 1. With a fraction of 2 the three example
  sessions all become orders, where the formula gives 6. And with ten sessions at the
  fraction \<^verbatim>\<open>0.7\<close> the code creates 7 orders, its product being rounded to the double
  7, where the floor of the exact product of 10 and that fraction is 6. In none of the
  three runs is a session skipped.
\<close>

theorem create_pedidos_objetivo_no_alcanzado:
  "create_pedidos sorteos_ejemplo tienda_ejemplo [descuento_ejemplo] [] (3 / 4)
     = ([], tienda_ejemplo, [])
   \<and> max 1 \<lfloor>fl (fl (of_nat (length (sesiones_compra []))) * (3 / 4))\<rfloor> = 1
   \<and> length (fst (create_pedidos sorteos_ejemplo tienda_ejemplo [descuento_ejemplo]
                     carritos_ejemplo 2)) = 3
   \<and> Saltada \<notin> set (snd (snd (create_pedidos sorteos_ejemplo tienda_ejemplo [descuento_ejemplo]
                                  carritos_ejemplo 2)))
   \<and> max 1 \<lfloor>fl (fl (of_nat (length (sesiones_compra carritos_ejemplo))) * 2)\<rfloor> = 6
   \<and> length (fst (create_pedidos sorteos_ejemplo tienda_ejemplo [descuento_ejemplo]
                     carritos_diez (fl (7 / 10)))) = 7
   \<and> Saltada \<notin> set (snd (snd (create_pedidos sorteos_ejemplo tienda_ejemplo [descuento_ejemplo]
                                  carritos_diez (fl (7 / 10)))))
   \<and> max 1 \<lfloor>of_nat (length (sesiones_compra carritos_diez)) * fl (7 / 10)\<rfloor> = 6"
proof -
  have 1: "create_pedidos sorteos_ejemplo tienda_ejemplo [descuento_ejemplo] [] (3 / 4)
             = ([], tienda_ejemplo, [])"
    by (simp add: create_pedidos_def)
  have 2: "max 1 \<lfloor>fl (fl (of_nat (length (sesiones_compra []))) * (3 / 4))\<rfloor> = 1"
    by code_simp
  have 3: "length (fst (create_pedidos sorteos_ejemplo tienda_ejemplo [descuento_ejemplo]
                     carritos_ejemplo 2)) = 3"
    by code_simp
  have 4: "Saltada \<notin> set (snd (snd (create_pedidos sorteos_ejemplo tienda_ejemplo
                                  [descuento_ejemplo] carritos_ejemplo 2)))"
    by code_simp
  have 5: "max 1 \<lfloor>fl (fl (of_nat (length (sesiones_compra carritos_ejemplo))) * 2)\<rfloor> = 6"
    by code_simp
  have 6: "length (fst (create_pedidos sorteos_ejemplo tienda_ejemplo [descuento_ejemplo]
                     carritos_diez (fl (7 / 10)))) = 7"
    by code_simp
  have 7: "Saltada \<notin> set (snd (snd (create_pedidos sorteos_ejemplo tienda_ejemplo
                                  [descuento_ejemplo] carritos_diez (fl (7 / 10)))))"
    by code_simp
  have 8: "max 1 \<lfloor>of_nat (length (sesiones_compra carritos_diez)) * fl (7 / 10)\<rfloor> = 6"
    by code_simp
  show ?thesis using 1 2 3 4 5 6 7 8 by blast
qed

end
